theory Spec2Isabelle
  imports Main
begin

section \<open>The Datadog downtime resource (datadog/resource\_datadog\_downtime.go)\<close>

text \<open>
  A shallow embedding of the downtime resource handler. Go's \<open>error\<close> results are values of
  the datatype \<open>error\<close> (\<open>None\<close> is Go's \<open>nil\<close>), a run-time panic is the outcome
  \<open>Panic\<close>, the \<open>*schema.ResourceData\<close> a handler mutates is a record that is passed in
  and returned, and the API client is a record of functions giving the client's answers.
\<close>

subsection \<open>Errors and outcomes\<close>

datatype error =
    NumError string
  | ClientError string
  | TranslatedError error string string
  | SetError string
  | ConfigError error

datatype panic = NilPointerDereference | TypeAssertion

datatype 'a outcome = Return 'a | Panic panic

definition bind :: "'a outcome \<Rightarrow> ('a \<Rightarrow> 'b outcome) \<Rightarrow> 'b outcome" where
  "bind m f = (case m of Return x \<Rightarrow> f x | Panic p \<Rightarrow> Panic p)"

text \<open>
  Modelled from the spec: \<open>utils.TranslateClientError\<close> (package datadog/internal/utils) is
  "an error-translation helper that converts raw transport/API errors into a normalized
  error carrying the failed host and a contextual message".
\<close>

definition TranslateClientError :: "error \<Rightarrow> string \<Rightarrow> string \<Rightarrow> error" where
  "TranslateClientError err host msg = TranslatedError err host msg"

subsection \<open>strconv and strings\<close>

definition digit :: "char \<Rightarrow> nat option" where
  "digit c = (if CHR ''0'' = c then Some 0 else if CHR ''1'' = c then Some 1
     else if CHR ''2'' = c then Some 2 else if CHR ''3'' = c then Some 3
     else if CHR ''4'' = c then Some 4 else if CHR ''5'' = c then Some 5
     else if CHR ''6'' = c then Some 6 else if CHR ''7'' = c then Some 7
     else if CHR ''8'' = c then Some 8 else if CHR ''9'' = c then Some 9 else None)"

fun parseDigits :: "string \<Rightarrow> nat \<Rightarrow> nat option" where
  "parseDigits [] acc = Some acc"
| "parseDigits (c # cs) acc =
     (case digit c of None \<Rightarrow> None | Some k \<Rightarrow> parseDigits cs (10 * acc + k))"

text \<open>
  \<open>strconv.ParseInt(s, 10, 64)\<close>: an optional sign, then one or more decimal digits, and
  the value must fit a signed 64-bit integer; \<open>None\<close> is the call's error.
\<close>

definition ParseInt :: "string \<Rightarrow> int option" where
  "ParseInt s =
     (case s of
        [] \<Rightarrow> None
      | c # cs \<Rightarrow>
          (let neg = (c = CHR ''-'');
               ds = (if c = CHR ''+'' \<or> c = CHR ''-'' then cs else s)
           in if ds = [] then None
              else (case parseDigits ds 0 of
                      None \<Rightarrow> None
                    | Some n \<Rightarrow>
                        if neg then (if n \<le> 2 ^ 63 then Some (- int n) else None)
                        else (if n < 2 ^ 63 then Some (int n) else None))))"

definition digitChar :: "nat \<Rightarrow> char" where
  "digitChar k = char_of (48 + k)"

function natToDec :: "nat \<Rightarrow> string" where
  "natToDec n = (if n < 10 then [digitChar n] else natToDec (n div 10) @ [digitChar (n mod 10)])"
  by pat_completeness auto
termination
  by (relation "measure (\<lambda>n. n)") auto

declare natToDec.simps [simp del]

text \<open>\<open>strconv.FormatInt(i, 10)\<close> and \<open>strconv.Itoa\<close>.\<close>

definition FormatInt :: "int \<Rightarrow> string" where
  "FormatInt i = (if i < 0 then CHR ''-'' # natToDec (nat (- i)) else natToDec (nat i))"

text \<open>
  \<open>strings.TrimSpace\<close> on the ASCII white space characters (tab, line feed, vertical tab,
  form feed, carriage return, space); the multi-byte Unicode spaces are not modelled.
\<close>

definition isSpace :: "char \<Rightarrow> bool" where
  "isSpace c = (c = CHR 0x09 \<or> c = CHR 0x0A \<or> c = CHR 0x0B \<or> c = CHR 0x0C \<or> c = CHR 0x0D
     \<or> c = CHR '' '')"

definition TrimSpace :: "string \<Rightarrow> string" where
  "TrimSpace s = rev (dropWhile isSpace (rev (dropWhile isSpace s)))"

text \<open>The conversion \<open>int32(n)\<close> of a Go \<open>int\<close>: the low 32 bits, read as signed.\<close>

definition to_int32 :: "int \<Rightarrow> int" where
  "to_int32 n = (n + 2 ^ 31) mod 2 ^ 32 - 2 ^ 31"

subsection \<open>The API client's types (datadogV1)\<close>

text \<open>
  A field of the client's structs is a pointer, absent (\<open>None\<close>) or set. The fields the
  handler tests with \<open>ok && v != nil\<close> are nullable: unset, set to an explicit null, or set
  to a value.
\<close>

datatype 'a nullable = Unset | Null | Val 'a

record DowntimeRecurrence =
  Period :: "int option"
  Type :: "string option"
  UntilDate :: "int option"
  UntilOccurrences :: "int option"
  WeekDays :: "string list option"
  Rrule :: "string option"

record Downtime =
  Active :: "bool option"
  Canceled :: "int nullable"
  Disabled :: "bool option"
  End :: "int option"
  Id_dt :: "int option"
  Message :: "string option"
  MonitorId :: "int nullable"
  MonitorTags :: "string list option"
  Recurrence :: "DowntimeRecurrence nullable"
  Scope :: "string list option"
  Start :: "int option"
  Timezone :: "string option"

text \<open>\<open>var dt datadogV1.Downtime\<close> and \<open>var recurrence datadogV1.DowntimeRecurrence\<close>.\<close>

definition zeroDowntime :: Downtime where
  "zeroDowntime = \<lparr>Active = None, Canceled = Unset, Disabled = None, End = None, Id_dt = None,
     Message = None, MonitorId = Unset, MonitorTags = None, Recurrence = Unset, Scope = None,
     Start = None, Timezone = None\<rparr>"

definition zeroRecurrence :: DowntimeRecurrence where
  "zeroRecurrence = \<lparr>Period = None, Type = None, UntilDate = None, UntilOccurrences = None,
     WeekDays = None, Rrule = None\<rparr>"

text \<open>The generated getters return the zero value of an unset field.\<close>

definition GetActive :: "Downtime \<Rightarrow> bool" where
  "GetActive dt = (case Active dt of None \<Rightarrow> False | Some b \<Rightarrow> b)"

definition GetDisabled :: "Downtime \<Rightarrow> bool" where
  "GetDisabled dt = (case Disabled dt of None \<Rightarrow> False | Some b \<Rightarrow> b)"

definition GetEnd :: "Downtime \<Rightarrow> int" where
  "GetEnd dt = (case End dt of None \<Rightarrow> 0 | Some n \<Rightarrow> n)"

definition GetStart :: "Downtime \<Rightarrow> int" where
  "GetStart dt = (case Start dt of None \<Rightarrow> 0 | Some n \<Rightarrow> n)"

definition GetId :: "Downtime \<Rightarrow> int" where
  "GetId dt = (case Id_dt dt of None \<Rightarrow> 0 | Some n \<Rightarrow> n)"

definition GetMessage :: "Downtime \<Rightarrow> string" where
  "GetMessage dt = (case Message dt of None \<Rightarrow> [] | Some s \<Rightarrow> s)"

definition GetTimezone :: "Downtime \<Rightarrow> string" where
  "GetTimezone dt = (case Timezone dt of None \<Rightarrow> [] | Some s \<Rightarrow> s)"

definition GetScope :: "Downtime \<Rightarrow> string list" where
  "GetScope dt = (case Scope dt of None \<Rightarrow> [] | Some xs \<Rightarrow> xs)"

definition GetMonitorTags :: "Downtime \<Rightarrow> string list" where
  "GetMonitorTags dt = (case MonitorTags dt of None \<Rightarrow> [] | Some xs \<Rightarrow> xs)"

text \<open>
  An \<open>*http.Response\<close>, when the client returns one: its status code and the host of the
  request it answers (\<open>httpresp.Request.URL.Host\<close>).
\<close>

record Response =
  StatusCode :: int
  Host :: string

type_synonym 'a api_result = "'a \<times> Response option \<times> error option"

record APIClient =
  GetDowntime :: "int \<Rightarrow> Downtime api_result"
  CreateDowntime :: "Downtime \<Rightarrow> Downtime api_result"
  UpdateDowntime :: "int \<Rightarrow> Downtime \<Rightarrow> Downtime api_result"
  CancelDowntime :: "int \<Rightarrow> Response option \<times> error option"

subsection \<open>The configuration accessor (schema.ResourceData)\<close>

text \<open>
  The values \<open>d.Get\<close> returns and \<open>d.Set\<close> takes, as Go's \<open>interface{}\<close> holds them: a
  bool, an int, a string, a list of strings, a \<open>*schema.Set\<close> of strings (by the list its
  \<open>List()\<close> enumerates) and a list of maps (a block list).
\<close>

datatype val =
    VBool bool
  | VInt int
  | VString string
  | VList "string list"
  | VSet "string list"
  | VMaps "(string \<times> val) list list"

text \<open>One \<open>recurrence\<close> block, by the attributes the schema declares for it (lines 100-139).\<close>

record recurrence_block =
  rb_period :: int
  rb_type :: string
  rb_until_date :: int
  rb_until_occurrences :: int
  rb_week_days :: "string list"
  rb_rrule :: string

text \<open>
  The resource data: the identifier, one field per attribute of the schema (lines 34-170)
  with the Go type of its \<open>schema.Type\<close>, where the zero value stands for an attribute
  that is not set, as \<open>d.Get\<close> returns it. \<open>rd_changed\<close> is the answer of
  \<open>d.HasChange\<close>, \<open>rd_setError\<close> the error \<open>d.Set\<close> returns for a key (if it fails), and
  \<open>rd_setCalls\<close> the calls of \<open>d.Set\<close> made so far, in order.
\<close>

record ResourceData =
  rd_id :: string
  attr_active :: bool
  attr_disabled :: bool
  attr_start :: int
  attr_start_date :: string
  attr_end :: int
  attr_end_date :: string
  attr_timezone :: string
  attr_message :: string
  attr_recurrence :: "recurrence_block list"
  attr_scope :: "string list"
  attr_monitor_id :: int
  attr_monitor_tags :: "string list"
  rd_changed :: "string \<Rightarrow> bool"
  rd_setError :: "string \<Rightarrow> error option"
  rd_setCalls :: "(string \<times> val) list"

definition d_Id :: "ResourceData \<Rightarrow> string" where
  "d_Id d = rd_id d"

definition d_SetId :: "ResourceData \<Rightarrow> string \<Rightarrow> ResourceData" where
  "d_SetId d s = d\<lparr>rd_id := s\<rparr>"

definition d_HasChange :: "ResourceData \<Rightarrow> string \<Rightarrow> bool" where
  "d_HasChange d key = rd_changed d key"

definition block_map :: "recurrence_block \<Rightarrow> (string \<times> val) list" where
  "block_map r =
     [(''period'', VInt (rb_period r)), (''type'', VString (rb_type r)),
      (''until_date'', VInt (rb_until_date r)),
      (''until_occurrences'', VInt (rb_until_occurrences r)),
      (''week_days'', VList (rb_week_days r)), (''rrule'', VString (rb_rrule r))]"

text \<open>
  The first block of \<open>recurrence\<close> (the paths \<open>recurrence.0.*\<close>); a list without it reads
  as a block of zero values.
\<close>

definition block0 :: "ResourceData \<Rightarrow> recurrence_block" where
  "block0 d =
     (case attr_recurrence d of
        [] \<Rightarrow> \<lparr>rb_period = 0, rb_type = [], rb_until_date = 0, rb_until_occurrences = 0,
               rb_week_days = [], rb_rrule = []\<rparr>
      | r # _ \<Rightarrow> r)"

text \<open>
  \<open>d.Get(key)\<close>: the value of the attribute, of the type the schema declares for the key;
  \<open>None\<close> is the nil interface Go returns for a key the schema does not have.
\<close>

definition d_Get :: "ResourceData \<Rightarrow> string \<Rightarrow> val option" where
  "d_Get d key =
     (if key = ''active'' then Some (VBool (attr_active d))
      else if key = ''disabled'' then Some (VBool (attr_disabled d))
      else if key = ''start'' then Some (VInt (attr_start d))
      else if key = ''start_date'' then Some (VString (attr_start_date d))
      else if key = ''end'' then Some (VInt (attr_end d))
      else if key = ''end_date'' then Some (VString (attr_end_date d))
      else if key = ''timezone'' then Some (VString (attr_timezone d))
      else if key = ''message'' then Some (VString (attr_message d))
      else if key = ''recurrence'' then Some (VMaps (map block_map (attr_recurrence d)))
      else if key = ''scope'' then Some (VList (attr_scope d))
      else if key = ''monitor_id'' then Some (VInt (attr_monitor_id d))
      else if key = ''monitor_tags'' then Some (VSet (attr_monitor_tags d))
      else if key = ''recurrence.0.period'' then Some (VInt (rb_period (block0 d)))
      else if key = ''recurrence.0.type'' then Some (VString (rb_type (block0 d)))
      else if key = ''recurrence.0.until_date'' then Some (VInt (rb_until_date (block0 d)))
      else if key = ''recurrence.0.until_occurrences''
        then Some (VInt (rb_until_occurrences (block0 d)))
      else if key = ''recurrence.0.week_days'' then Some (VList (rb_week_days (block0 d)))
      else if key = ''recurrence.0.rrule'' then Some (VString (rb_rrule (block0 d)))
      else None)"

fun is_zero :: "val \<Rightarrow> bool" where
  "is_zero (VBool b) = (\<not> b)"
| "is_zero (VInt n) = (n = 0)"
| "is_zero (VString s) = (s = [])"
| "is_zero (VList xs) = (xs = [])"
| "is_zero (VSet xs) = (xs = [])"
| "is_zero (VMaps ms) = (ms = [])"

text \<open>
  \<open>d.GetOk(key)\<close>: the value and whether the key is set to a value other than the zero
  value of its type. The result is \<open>Some v\<close> when \<open>ok\<close> is true; the handler reads the
  value only then.
\<close>

definition d_GetOk :: "ResourceData \<Rightarrow> string \<Rightarrow> val option" where
  "d_GetOk d key =
     (case d_Get d key of
        None \<Rightarrow> None
      | Some v \<Rightarrow> if is_zero v then None else Some v)"

text \<open>The type assertions \<open>attr.(string)\<close>, \<open>attr.(int)\<close>, ...: a value of another type panics.\<close>

fun as_string :: "val \<Rightarrow> string outcome" where
  "as_string (VString s) = Return s"
| "as_string _ = Panic TypeAssertion"

fun as_int :: "val \<Rightarrow> int outcome" where
  "as_int (VInt n) = Return n"
| "as_int _ = Panic TypeAssertion"

fun as_list :: "val option \<Rightarrow> string list outcome" where
  "as_list (Some (VList xs)) = Return xs"
| "as_list _ = Panic TypeAssertion"

fun as_set_List :: "val option \<Rightarrow> string list outcome" where
  "as_set_List (Some (VSet xs)) = Return xs"
| "as_set_List _ = Panic TypeAssertion"

fun int_or_zero :: "val option \<Rightarrow> int" where
  "int_or_zero (Some (VInt n)) = n"
| "int_or_zero _ = 0"

fun string_or_zero :: "val option \<Rightarrow> string" where
  "string_or_zero (Some (VString s)) = s"
| "string_or_zero _ = []"

fun list_or_zero :: "val option \<Rightarrow> string list" where
  "list_or_zero (Some (VList xs)) = xs"
| "list_or_zero _ = []"

definition block_of_map :: "(string \<times> val) list \<Rightarrow> recurrence_block" where
  "block_of_map m =
     \<lparr>rb_period = int_or_zero (map_of m ''period''),
      rb_type = string_or_zero (map_of m ''type''),
      rb_until_date = int_or_zero (map_of m ''until_date''),
      rb_until_occurrences = int_or_zero (map_of m ''until_occurrences''),
      rb_week_days = list_or_zero (map_of m ''week_days''),
      rb_rrule = string_or_zero (map_of m ''rrule'')\<rparr>"

text \<open>
  Storing a value under a top-level key: \<open>None\<close> when the key is not an attribute of the
  schema or the value is not of the attribute's type. A list written to the set
  \<open>monitor_tags\<close> loses its duplicates; the SDK enumerates a set in the order of its
  elements' hashes, which is not modelled, and the statements below rely on the elements
  only. A map of a block gives the attributes it holds, the others their zero values.
\<close>

definition write_field :: "ResourceData \<Rightarrow> string \<Rightarrow> val \<Rightarrow> ResourceData option" where
  "write_field d key v =
     (if key = ''active''
        then (case v of VBool b \<Rightarrow> Some (d\<lparr>attr_active := b\<rparr>) | _ \<Rightarrow> None)
      else if key = ''disabled''
        then (case v of VBool b \<Rightarrow> Some (d\<lparr>attr_disabled := b\<rparr>) | _ \<Rightarrow> None)
      else if key = ''start''
        then (case v of VInt n \<Rightarrow> Some (d\<lparr>attr_start := n\<rparr>) | _ \<Rightarrow> None)
      else if key = ''start_date''
        then (case v of VString s \<Rightarrow> Some (d\<lparr>attr_start_date := s\<rparr>) | _ \<Rightarrow> None)
      else if key = ''end''
        then (case v of VInt n \<Rightarrow> Some (d\<lparr>attr_end := n\<rparr>) | _ \<Rightarrow> None)
      else if key = ''end_date''
        then (case v of VString s \<Rightarrow> Some (d\<lparr>attr_end_date := s\<rparr>) | _ \<Rightarrow> None)
      else if key = ''timezone''
        then (case v of VString s \<Rightarrow> Some (d\<lparr>attr_timezone := s\<rparr>) | _ \<Rightarrow> None)
      else if key = ''message''
        then (case v of VString s \<Rightarrow> Some (d\<lparr>attr_message := s\<rparr>) | _ \<Rightarrow> None)
      else if key = ''recurrence''
        then (case v of VMaps ms \<Rightarrow> Some (d\<lparr>attr_recurrence := map block_of_map ms\<rparr>)
              | _ \<Rightarrow> None)
      else if key = ''scope''
        then (case v of VList xs \<Rightarrow> Some (d\<lparr>attr_scope := xs\<rparr>) | _ \<Rightarrow> None)
      else if key = ''monitor_id''
        then (case v of VInt n \<Rightarrow> Some (d\<lparr>attr_monitor_id := n\<rparr>) | _ \<Rightarrow> None)
      else if key = ''monitor_tags''
        then (case v of VList xs \<Rightarrow> Some (d\<lparr>attr_monitor_tags := remdups xs\<rparr>)
              | VSet xs \<Rightarrow> Some (d\<lparr>attr_monitor_tags := remdups xs\<rparr>) | _ \<Rightarrow> None)
      else None)"

text \<open>
  \<open>d.Set(key, value)\<close>: the call is recorded; it fails with the error \<open>rd_setError\<close> holds
  for the key, or with \<open>SetError key\<close> when the value cannot be stored, and then changes
  no attribute.
\<close>

definition d_Set :: "ResourceData \<Rightarrow> string \<Rightarrow> val \<Rightarrow> ResourceData \<times> error option" where
  "d_Set d key v =
     (let d1 = d\<lparr>rd_setCalls := rd_setCalls d @ [(key, v)]\<rparr>
      in case rd_setError d key of
           Some err \<Rightarrow> (d1, Some err)
         | None \<Rightarrow>
             (case write_field d1 key v of
                None \<Rightarrow> (d1, Some (SetError key))
              | Some d2 \<Rightarrow> (d2, None)))"

subsection \<open>Boundary timestamps (lines 179-218)\<close>

text \<open>
  \<open>time_Parse\<close> stands for \<open>time.Parse(time.RFC3339, s)\<close> followed by \<open>t.Unix()\<close>: the epoch
  seconds of a string that parses, \<open>None\<close> for one that does not.
\<close>

definition getDowntimeBoundaryTimestamp ::
  "(string \<Rightarrow> int option) \<Rightarrow> ResourceData \<Rightarrow> string \<Rightarrow> string \<Rightarrow> (int \<times> string) outcome" where
  "getDowntimeBoundaryTimestamp time_Parse d dateAttr tsAttr =
     (case d_GetOk d dateAttr of
        Some attr \<Rightarrow>
          bind (as_string attr) (\<lambda>s.
            case time_Parse s of
              Some t \<Rightarrow> Return (t, dateAttr)
            | None \<Rightarrow> Return (0, []))
      | None \<Rightarrow>
          (case d_GetOk d tsAttr of
             Some attr \<Rightarrow> bind (as_int attr) (\<lambda>n. Return (n, tsAttr))
           | None \<Rightarrow> Return (0, [])))"

definition downtimeBoundaryNeedsApply ::
  "ResourceData \<Rightarrow> string \<Rightarrow> int \<Rightarrow> int \<Rightarrow> bool \<Rightarrow> bool" where
  "downtimeBoundaryNeedsApply d tsFrom apiTs configTs updating =
     (if tsFrom = [] then False
      else if updating then (if apiTs \<noteq> configTs then True else d_HasChange d tsFrom)
      else True)"

subsection \<open>The request builder (lines 220-305)\<close>

text \<open>
  The idiom \<open>if attr, ok := d.GetOk(key); ok { x.SetF(attr.(T)) }\<close>: the setter runs on the
  asserted value when the key is set, and \<open>x\<close> is left as it is otherwise.
\<close>

definition whenOk_string ::
  "ResourceData \<Rightarrow> string \<Rightarrow> (string \<Rightarrow> 'a \<Rightarrow> 'a) \<Rightarrow> 'a \<Rightarrow> 'a outcome" where
  "whenOk_string d key setter x =
     (case d_GetOk d key of
        None \<Rightarrow> Return x
      | Some attr \<Rightarrow> bind (as_string attr) (\<lambda>s. Return (setter s x)))"

definition whenOk_int ::
  "ResourceData \<Rightarrow> string \<Rightarrow> (int \<Rightarrow> 'a \<Rightarrow> 'a) \<Rightarrow> 'a \<Rightarrow> 'a outcome" where
  "whenOk_int d key setter x =
     (case d_GetOk d key of
        None \<Rightarrow> Return x
      | Some attr \<Rightarrow> bind (as_int attr) (\<lambda>n. Return (setter n x)))"

definition whenOk_list ::
  "ResourceData \<Rightarrow> string \<Rightarrow> (string list \<Rightarrow> 'a \<Rightarrow> 'a) \<Rightarrow> 'a \<Rightarrow> 'a outcome" where
  "whenOk_list d key setter x =
     (case d_GetOk d key of
        None \<Rightarrow> Return x
      | Some attr \<Rightarrow> bind (as_list (Some attr)) (\<lambda>xs. Return (setter xs x)))"

text \<open>Lines 257-281: the recurrence of the request, one sub-field at a time.\<close>

definition buildRecurrence :: "ResourceData \<Rightarrow> DowntimeRecurrence outcome" where
  "buildRecurrence d =
     bind (whenOk_int d ''recurrence.0.period''
             (\<lambda>n r. r\<lparr>Period := Some (to_int32 n)\<rparr>) zeroRecurrence) (\<lambda>r.
     bind (whenOk_string d ''recurrence.0.type'' (\<lambda>s r. r\<lparr>Type := Some s\<rparr>) r) (\<lambda>r.
     bind (whenOk_int d ''recurrence.0.until_date'' (\<lambda>n r. r\<lparr>UntilDate := Some n\<rparr>) r) (\<lambda>r.
     bind (whenOk_int d ''recurrence.0.until_occurrences''
             (\<lambda>n r. r\<lparr>UntilOccurrences := Some (to_int32 n)\<rparr>) r) (\<lambda>r.
     bind (whenOk_list d ''recurrence.0.week_days'' (\<lambda>xs r. r\<lparr>WeekDays := Some xs\<rparr>) r) (\<lambda>r.
     whenOk_string d ''recurrence.0.rrule'' (\<lambda>s r. r\<lparr>Rrule := Some s\<rparr>) r)))))"

text \<open>
  Lines 245-304: the request from the configuration, given the current start and end of
  the remote downtime (both 0 on create).
\<close>

definition buildDowntimeFields ::
  "(string \<Rightarrow> int option) \<Rightarrow> ResourceData \<Rightarrow> int \<Rightarrow> int \<Rightarrow> bool \<Rightarrow> Downtime outcome" where
  "buildDowntimeFields time_Parse d currentStart currentEnd updating =
     bind (getDowntimeBoundaryTimestamp time_Parse d ''end_date'' ''end'') (\<lambda>(endValue, endAttrName).
     bind (Return (if downtimeBoundaryNeedsApply d endAttrName currentEnd endValue updating
                   then zeroDowntime\<lparr>End := Some endValue\<rparr> else zeroDowntime)) (\<lambda>dt.
     bind (whenOk_string d ''message'' (\<lambda>s dt. dt\<lparr>Message := Some (TrimSpace s)\<rparr>) dt) (\<lambda>dt.
     bind (whenOk_int d ''monitor_id'' (\<lambda>n dt. dt\<lparr>MonitorId := Val n\<rparr>) dt) (\<lambda>dt.
     bind (case d_GetOk d ''recurrence'' of
             None \<Rightarrow> Return dt
           | Some _ \<Rightarrow> bind (buildRecurrence d) (\<lambda>r. Return (dt\<lparr>Recurrence := Val r\<rparr>))) (\<lambda>dt.
     bind (as_list (d_Get d ''scope'')) (\<lambda>scope.
     bind (Return (dt\<lparr>Scope := Some scope\<rparr>)) (\<lambda>dt.
     bind (as_set_List (d_Get d ''monitor_tags'')) (\<lambda>tags.
     bind (Return (dt\<lparr>MonitorTags := Some tags\<rparr>)) (\<lambda>dt.
     bind (getDowntimeBoundaryTimestamp time_Parse d ''start_date'' ''start'')
       (\<lambda>(startValue, startAttrName).
     bind (Return (if downtimeBoundaryNeedsApply d startAttrName currentStart startValue updating
                   then dt\<lparr>Start := Some startValue\<rparr> else dt)) (\<lambda>dt.
     whenOk_string d ''timezone'' (\<lambda>s dt. dt\<lparr>Timezone := Some s\<rparr>) dt)))))))))))"

text \<open>
  Lines 228-243 and the return: on update the current downtime is fetched first. The
  argument \<open>httpresp.Request.URL.Host\<close> of the error translation reads through
  \<open>httpresp\<close>, which panics when the client gave no response.
\<close>

definition buildDowntimeStruct ::
  "(string \<Rightarrow> int option) \<Rightarrow> ResourceData \<Rightarrow> APIClient \<Rightarrow> bool \<Rightarrow> (error + Downtime) outcome" where
  "buildDowntimeStruct time_Parse d client updating =
     (if updating then
        (case ParseInt (d_Id d) of
           None \<Rightarrow> Return (Inl (NumError (d_Id d)))
         | Some ident \<Rightarrow>
             (case GetDowntime client ident of
                (currdt, httpresp, Some err) \<Rightarrow>
                  (case httpresp of
                     None \<Rightarrow> Panic NilPointerDereference
                   | Some r \<Rightarrow>
                       Return (Inl (TranslateClientError err (Host r) ''error getting downtime'')))
              | (currdt, httpresp, None) \<Rightarrow>
                  bind (buildDowntimeFields time_Parse d (GetStart currdt) (GetEnd currdt) True)
                    (\<lambda>dt. Return (Inr dt))))
      else bind (buildDowntimeFields time_Parse d 0 0 False) (\<lambda>dt. Return (Inr dt)))"

subsection \<open>State projection (lines 353-421)\<close>

text \<open>
  \<open>if err := d.Set(key, v); err != nil { return err }\<close> followed by the rest of the
  function.
\<close>

definition try_Set ::
  "string \<Rightarrow> val \<Rightarrow> (ResourceData \<Rightarrow> ResourceData \<times> error option) \<Rightarrow> ResourceData
     \<Rightarrow> ResourceData \<times> error option" where
  "try_Set key v rest d =
     (case d_Set d key v of
        (d', Some err) \<Rightarrow> (d', Some err)
      | (d', None) \<Rightarrow> rest d')"

text \<open>Lines 378-402: the map of the remote recurrence's sub-fields that are set.\<close>

definition recurrenceMap :: "DowntimeRecurrence \<Rightarrow> (string \<times> val) list" where
  "recurrenceMap r =
     (case Period r of None \<Rightarrow> [] | Some n \<Rightarrow> [(''period'', VInt n)]) @
     (case Type r of None \<Rightarrow> [] | Some s \<Rightarrow> [(''type'', VString s)]) @
     (case UntilDate r of None \<Rightarrow> [] | Some n \<Rightarrow> [(''until_date'', VInt n)]) @
     (case UntilOccurrences r of None \<Rightarrow> [] | Some n \<Rightarrow> [(''until_occurrences'', VInt n)]) @
     (case WeekDays r of None \<Rightarrow> [] | Some xs \<Rightarrow> [(''week_days'', VList xs)]) @
     (case Rrule r of None \<Rightarrow> [] | Some s \<Rightarrow> [(''rrule'', VString s)])"

definition updateDowntimeState :: "ResourceData \<Rightarrow> Downtime \<Rightarrow> ResourceData \<times> error option" where
  "updateDowntimeState d dt =
     try_Set ''active'' (VBool (GetActive dt))
    (try_Set ''disabled'' (VBool (GetDisabled dt))
    (try_Set ''end'' (VInt (GetEnd dt))
    (try_Set ''message'' (VString (GetMessage dt))
    ((case MonitorId dt of
        Val v \<Rightarrow> try_Set ''monitor_id'' (VInt v)
      | _ \<Rightarrow> (\<lambda>rest. rest))
    (try_Set ''timezone'' (VString (GetTimezone dt))
    ((case Recurrence dt of
        Val r \<Rightarrow> try_Set ''recurrence'' (VMaps [recurrenceMap r])
      | _ \<Rightarrow> (\<lambda>rest. rest))
    (try_Set ''scope'' (VList (GetScope dt))
    ((if GetMonitorTags dt \<noteq> [''*'']
      then try_Set ''monitor_tags'' (VList (GetMonitorTags dt))
      else (\<lambda>rest. rest))
    (try_Set ''start'' (VInt (GetStart dt))
    (\<lambda>d. (d, None))))))))))) d"

text \<open>
  For the statements about the projection: the calls of \<open>d.Set\<close> the function makes for a
  remote downtime when none fails, in the order of the source, and the run of a list of
  such calls that stops at the first error.
\<close>

definition projection_writes :: "Downtime \<Rightarrow> (string \<times> val) list" where
  "projection_writes dt =
     [(''active'', VBool (GetActive dt)), (''disabled'', VBool (GetDisabled dt)),
      (''end'', VInt (GetEnd dt)), (''message'', VString (GetMessage dt))] @
     (case MonitorId dt of Val v \<Rightarrow> [(''monitor_id'', VInt v)] | _ \<Rightarrow> []) @
     [(''timezone'', VString (GetTimezone dt))] @
     (case Recurrence dt of Val r \<Rightarrow> [(''recurrence'', VMaps [recurrenceMap r])] | _ \<Rightarrow> []) @
     [(''scope'', VList (GetScope dt))] @
     (if GetMonitorTags dt \<noteq> [''*''] then [(''monitor_tags'', VList (GetMonitorTags dt))]
      else []) @
     [(''start'', VInt (GetStart dt))]"

fun run_writes :: "(string \<times> val) list \<Rightarrow> ResourceData \<Rightarrow> ResourceData \<times> error option" where
  "run_writes [] d = (d, None)"
| "run_writes ((key, v) # ws) d = try_Set key v (run_writes ws) d"

text \<open>Whether a call \<open>d.Set(key, v)\<close> fails on \<open>d\<close>, and with which error.\<close>

definition set_result :: "ResourceData \<Rightarrow> string \<times> val \<Rightarrow> error option" where
  "set_result d w = snd (d_Set d (fst w) (snd w))"

subsection \<open>The lifecycle operations (lines 307-351 and 423-472)\<close>

text \<open>
  An operation returns the resource data as it leaves it and its \<open>error\<close> result, or
  panics.
\<close>

definition resourceDatadogDowntimeCreate ::
  "(string \<Rightarrow> int option) \<Rightarrow> APIClient \<Rightarrow> ResourceData \<Rightarrow> (ResourceData \<times> error option) outcome"
  where
  "resourceDatadogDowntimeCreate time_Parse client d =
     bind (buildDowntimeStruct time_Parse d client False) (\<lambda>built.
       case built of
         Inl err \<Rightarrow> Return (d, Some (ConfigError err))
       | Inr dts \<Rightarrow>
           (case CreateDowntime client dts of
              (dt, httpresp, Some err) \<Rightarrow>
                (case httpresp of
                   None \<Rightarrow> Panic NilPointerDereference
                 | Some r \<Rightarrow>
                     Return (d, Some (TranslateClientError err (Host r)
                                        ''error creating downtime'')))
            | (dt, httpresp, None) \<Rightarrow>
                Return (updateDowntimeState (d_SetId d (FormatInt (GetId dt))) dt)))"

definition resourceDatadogDowntimeRead ::
  "APIClient \<Rightarrow> ResourceData \<Rightarrow> (ResourceData \<times> error option) outcome" where
  "resourceDatadogDowntimeRead client d =
     (case ParseInt (d_Id d) of
        None \<Rightarrow> Return (d, Some (NumError (d_Id d)))
      | Some ident \<Rightarrow>
          (case GetDowntime client ident of
             (dt, httpresp, Some err) \<Rightarrow>
               if (case httpresp of None \<Rightarrow> False | Some r \<Rightarrow> StatusCode r = 404)
               then Return (d_SetId d [], None)
               else (case httpresp of
                       None \<Rightarrow> Panic NilPointerDereference
                     | Some r \<Rightarrow>
                         Return (d, Some (TranslateClientError err (Host r)
                                            ''error getting downtime'')))
           | (dt, httpresp, None) \<Rightarrow>
               (case Canceled dt of
                  Val canceled \<Rightarrow> Return (d_SetId d [], None)
                | _ \<Rightarrow> Return (updateDowntimeState d dt))))"

definition resourceDatadogDowntimeUpdate ::
  "(string \<Rightarrow> int option) \<Rightarrow> APIClient \<Rightarrow> ResourceData \<Rightarrow> (ResourceData \<times> error option) outcome"
  where
  "resourceDatadogDowntimeUpdate time_Parse client d =
     bind (buildDowntimeStruct time_Parse d client True) (\<lambda>built.
       case built of
         Inl err \<Rightarrow> Return (d, Some (ConfigError err))
       | Inr dt0 \<Rightarrow>
           (case ParseInt (d_Id d) of
              None \<Rightarrow> Return (d, Some (NumError (d_Id d)))
            | Some ident \<Rightarrow>
                (let dt = dt0\<lparr>Id_dt := Some ident\<rparr>
                 in case UpdateDowntime client ident dt of
                      (updatedDowntime, httpresp, Some err) \<Rightarrow>
                        (case httpresp of
                           None \<Rightarrow> Panic NilPointerDereference
                         | Some r \<Rightarrow>
                             Return (d, Some (TranslateClientError err (Host r)
                                                ''error updating downtime'')))
                    | (updatedDowntime, httpresp, None) \<Rightarrow>
                        Return (updateDowntimeState (d_SetId d (FormatInt (GetId dt)))
                                  updatedDowntime))))"

definition resourceDatadogDowntimeDelete ::
  "APIClient \<Rightarrow> ResourceData \<Rightarrow> (ResourceData \<times> error option) outcome" where
  "resourceDatadogDowntimeDelete client d =
     (case ParseInt (d_Id d) of
        None \<Rightarrow> Return (d, Some (NumError (d_Id d)))
      | Some ident \<Rightarrow>
          (case CancelDowntime client ident of
             (httpresp, Some err) \<Rightarrow>
               (case httpresp of
                  None \<Rightarrow> Panic NilPointerDereference
                | Some r \<Rightarrow>
                    Return (d, Some (TranslateClientError err (Host r)
                                       ''error deleting downtime'')))
           | (httpresp, None) \<Rightarrow> Return (d, None)))"

text \<open>Import returns the list of the imported resource data with the error of the read.\<close>

definition resourceDatadogDowntimeImport ::
  "APIClient \<Rightarrow> ResourceData \<Rightarrow> (ResourceData \<times> ResourceData list \<times> error option) outcome" where
  "resourceDatadogDowntimeImport client d =
     bind (resourceDatadogDowntimeRead client d) (\<lambda>(d', res).
       case res of
         Some err \<Rightarrow> Return (d', [], Some err)
       | None \<Rightarrow> Return (d', [d'], None))"

text \<open>The calls of \<open>d.Set\<close> made between the resource data \<open>d\<close> and its later state \<open>d'\<close>.\<close>

definition calls_made :: "ResourceData \<Rightarrow> ResourceData \<Rightarrow> (string \<times> val) list" where
  "calls_made d d' = drop (length (rd_setCalls d)) (rd_setCalls d')"

subsection \<open>The schema's mutual exclusions (lines 34-170)\<close>

datatype ValueType = TypeBool | TypeInt | TypeString | TypeList | TypeSet

text \<open>
  A \<open>schema.Schema\<close> by its type, its \<open>Optional\<close>, \<open>Required\<close> and \<open>Computed\<close> flags, its
  \<open>ConflictsWith\<close> and, for a list of blocks, the schema of the block. Descriptions,
  defaults and the validation, diff and state functions play no part in the check of
  \<open>ConflictsWith\<close> and are left out.
\<close>

datatype Schema =
  Schema (sType: ValueType) (sOptional: bool) (sRequired: bool) (sComputed: bool)
    (sConflictsWith: "string list") (sElem: "(string \<times> Schema) list")

definition recurrenceSchema :: "(string \<times> Schema) list" where
  "recurrenceSchema =
     [(''period'', Schema TypeInt True False False [] []),
      (''type'', Schema TypeString False True False [] []),
      (''until_date'',
         Schema TypeInt True False False [''recurrence.until_occurrences''] []),
      (''until_occurrences'',
         Schema TypeInt True False False [''recurrence.until_date''] []),
      (''week_days'', Schema TypeList True False False [] []),
      (''rrule'',
         Schema TypeString True False False
           [''recurrence.period'', ''recurrence.until_date'',
            ''recurrence.until_occurrences'', ''recurrence.week_days''] [])]"

definition downtimeSchema :: "(string \<times> Schema) list" where
  "downtimeSchema =
     [(''active'', Schema TypeBool False False True [] []),
      (''disabled'', Schema TypeBool False False True [] []),
      (''start'', Schema TypeInt True False False [] []),
      (''start_date'', Schema TypeString True False False [''start''] []),
      (''end'', Schema TypeInt True False False [] []),
      (''end_date'', Schema TypeString True False False [''end''] []),
      (''timezone'', Schema TypeString True False False [] []),
      (''message'', Schema TypeString True False False [] []),
      (''recurrence'', Schema TypeList True False False [] recurrenceSchema),
      (''scope'', Schema TypeList False True False [] []),
      (''monitor_id'', Schema TypeInt True False False [''monitor_tags''] []),
      (''monitor_tags'', Schema TypeSet True False False [''monitor_id''] [])]"

text \<open>
  The configuration the plugin SDK validates against the schema, as the tree of values the
  user wrote: an attribute that is not configured is absent from its map.
\<close>

datatype raw =
    RawBool bool
  | RawInt int
  | RawString string
  | RawList "raw list"
  | RawMap "(string \<times> raw) list"

fun splitDot :: "string \<Rightarrow> string list" where
  "splitDot [] = [[]]"
| "splitDot (c # cs) =
     (if c = CHR ''.'' then [] # splitDot cs
      else (case splitDot cs of [] \<Rightarrow> [[c]] | part # parts \<Rightarrow> (c # part) # parts))"

text \<open>
  The SDK's lookup of a dotted path in the configuration: a part of the path is a key of a
  map or the decimal index of an element of a list, as in the paths \<open>recurrence.0.period\<close>
  of lines 259-278.
\<close>

fun raw_get :: "raw \<Rightarrow> string list \<Rightarrow> raw option" where
  "raw_get v [] = Some v"
| "raw_get (RawMap m) (part # parts) =
     (case map_of m part of None \<Rightarrow> None | Some v \<Rightarrow> raw_get v parts)"
| "raw_get (RawList xs) (part # parts) =
     (case parseDigits part 0 of
        None \<Rightarrow> None
      | Some i \<Rightarrow> if part \<noteq> [] \<and> i < length xs then raw_get (xs ! i) parts else None)"
| "raw_get _ (part # parts) = None"

definition c_Get :: "(string \<times> raw) list \<Rightarrow> string \<Rightarrow> raw option" where
  "c_Get c key = raw_get (RawMap c) (splitDot key)"

datatype schema_error =
    RequiredNotSet string
  | CannotBeSet string
  | ConflictsWithError string string

text \<open>
  The check of \<open>ConflictsWith\<close>: an attribute that is configured is an error when one of the
  paths its schema lists is configured too.
\<close>

definition validateConflictingAttributes ::
  "string \<Rightarrow> Schema \<Rightarrow> (string \<times> raw) list \<Rightarrow> schema_error option" where
  "validateConflictingAttributes k schema c =
     (case filter (\<lambda>conflictingKey. c_Get c conflictingKey \<noteq> None) (sConflictsWith schema) of
        [] \<Rightarrow> None
      | conflictingKey # _ \<Rightarrow> Some (ConflictsWithError k conflictingKey))"

definition validateAttribute ::
  "(string \<times> raw) list \<Rightarrow> string \<times> Schema \<Rightarrow> schema_error list" where
  "validateAttribute c entry =
     (case entry of (k, schema) \<Rightarrow>
        if c_Get c k = None then (if sRequired schema then [RequiredNotSet k] else [])
        else if \<not> sRequired schema \<and> \<not> sOptional schema then [CannotBeSet k]
        else (case validateConflictingAttributes k schema c of
                Some err \<Rightarrow> [err]
              | None \<Rightarrow> []))"

text \<open>
  The blocks of a list attribute are validated under the paths \<open>k.i.sub\<close>, once the
  attribute itself passed.
\<close>

definition validateBlocks ::
  "(string \<times> raw) list \<Rightarrow> string \<times> Schema \<Rightarrow> schema_error list" where
  "validateBlocks c entry =
     (case entry of (k, schema) \<Rightarrow>
        (case c_Get c k of
           Some (RawList blocks) \<Rightarrow>
             concat (map (\<lambda>i.
               concat (map (\<lambda>sub. validateAttribute c (k @ ''.'' @ natToDec i @ ''.'' @ fst sub, snd sub))
                         (sElem schema)))
               [0 ..< length blocks])
         | _ \<Rightarrow> []))"

definition validateConfig :: "(string \<times> Schema) list \<Rightarrow> (string \<times> raw) list \<Rightarrow> schema_error list" where
  "validateConfig schemaMap c =
     concat (map (\<lambda>entry.
       case validateAttribute c entry of
         [] \<Rightarrow> validateBlocks c entry
       | errs \<Rightarrow> errs) schemaMap)"

subsection \<open>Example inputs\<close>

text \<open>
  A parser that knows one date, a configuration with a scope and the default time zone
  whose identifier is 123, and API clients with fixed answers.
\<close>

definition exampleParse :: "string \<Rightarrow> int option" where
  "exampleParse s = (if s = ''2021-01-01T00:00:00Z'' then Some 1609459200 else None)"

definition exampleData :: ResourceData where
  "exampleData =
     \<lparr>rd_id = ''123'', attr_active = False, attr_disabled = False, attr_start = 0,
      attr_start_date = [], attr_end = 0, attr_end_date = [], attr_timezone = ''UTC'',
      attr_message = [], attr_recurrence = [], attr_scope = [''host:web-1''],
      attr_monitor_id = 0, attr_monitor_tags = [], rd_changed = (\<lambda>key. False),
      rd_setError = (\<lambda>key. None), rd_setCalls = []\<rparr>"

definition exampleResponse :: Response where
  "exampleResponse = \<lparr>StatusCode = 200, Host = ''api.datadoghq.com''\<rparr>"

text \<open>The remote downtime 123 with the server's default \<open>monitor_tags\<close>.\<close>

definition exampleRemote :: Downtime where
  "exampleRemote =
     zeroDowntime\<lparr>Id_dt := Some 123, Message := Some ''  deploy  '',
       MonitorTags := Some [''*''], Scope := Some [''host:web-1''],
       Start := Some 1700000000, Timezone := Some ''UTC''\<rparr>"

text \<open>A client that answers every call, and whose update returns the downtime 456.\<close>

definition exampleClient :: APIClient where
  "exampleClient =
     \<lparr>GetDowntime = (\<lambda>ident. (exampleRemote, Some exampleResponse, None)),
      CreateDowntime = (\<lambda>body. (exampleRemote, Some exampleResponse, None)),
      UpdateDowntime =
        (\<lambda>ident body. (exampleRemote\<lparr>Id_dt := Some 456\<rparr>, Some exampleResponse, None)),
      CancelDowntime = (\<lambda>ident. (Some exampleResponse, None))\<rparr>"

text \<open>A client whose calls fail before any HTTP response arrives.\<close>

definition offlineClient :: APIClient where
  "offlineClient =
     \<lparr>GetDowntime = (\<lambda>ident. (zeroDowntime, None, Some (ClientError ''connection refused''))),
      CreateDowntime = (\<lambda>body. (zeroDowntime, None, Some (ClientError ''connection refused''))),
      UpdateDowntime =
        (\<lambda>ident body. (zeroDowntime, None, Some (ClientError ''connection refused''))),
      CancelDowntime = (\<lambda>ident. (None, Some (ClientError ''connection refused'')))\<rparr>"

text \<open>The example configuration when \<open>d.Set\<close> fails for \<open>message\<close>.\<close>

definition failingData :: ResourceData where
  "failingData =
     exampleData\<lparr>rd_setError :=
       (\<lambda>key. if key = ''message'' then Some (SetError ''message: cannot be written'')
              else None)\<rparr>"

text \<open>
  A configuration whose recurrence block sets both \<open>until_date\<close> and \<open>until_occurrences\<close>,
  as the SDK validates it and as the handler reads it.
\<close>

definition conflictingConfig :: "(string \<times> raw) list" where
  "conflictingConfig =
     [(''scope'', RawList [RawString ''host:web-1'']),
      (''recurrence'',
         RawList [RawMap [(''type'', RawString ''days''), (''period'', RawInt 1),
                          (''until_date'', RawInt 1700000000),
                          (''until_occurrences'', RawInt 3)]])]"

definition conflictingData :: ResourceData where
  "conflictingData =
     exampleData\<lparr>attr_recurrence :=
       [\<lparr>rb_period = 1, rb_type = ''days'', rb_until_date = 1700000000,
         rb_until_occurrences = 3, rb_week_days = [], rb_rrule = []\<rparr>]\<rparr>"

text \<open>
  The boundary resolver as the specification words it: the parsed date when the date
  attribute is set and parses, otherwise the integer attribute when it is set, otherwise
  zero and no attribute.
\<close>

definition specifiedBoundary ::
  "(string \<Rightarrow> int option) \<Rightarrow> string \<Rightarrow> string \<Rightarrow> string \<Rightarrow> int \<Rightarrow> int \<times> string" where
  "specifiedBoundary time_Parse dateAttr dateValue tsAttr tsValue =
     (case (if dateValue = [] then None else time_Parse dateValue) of
        Some t \<Rightarrow> (t, dateAttr)
      | None \<Rightarrow> if tsValue \<noteq> 0 then (tsValue, tsAttr) else (0, []))"

section \<open>Properties\<close>

subsection \<open>Reading the configuration\<close>

lemma bind_Return [simp]: "bind (Return x) f = f x"
  by (simp add: bind_def)

lemma d_Get_keys:
  "d_Get d ''active'' = Some (VBool (attr_active d))"
  "d_Get d ''disabled'' = Some (VBool (attr_disabled d))"
  "d_Get d ''start'' = Some (VInt (attr_start d))"
  "d_Get d ''start_date'' = Some (VString (attr_start_date d))"
  "d_Get d ''end'' = Some (VInt (attr_end d))"
  "d_Get d ''end_date'' = Some (VString (attr_end_date d))"
  "d_Get d ''timezone'' = Some (VString (attr_timezone d))"
  "d_Get d ''message'' = Some (VString (attr_message d))"
  "d_Get d ''recurrence'' = Some (VMaps (map block_map (attr_recurrence d)))"
  "d_Get d ''scope'' = Some (VList (attr_scope d))"
  "d_Get d ''monitor_id'' = Some (VInt (attr_monitor_id d))"
  "d_Get d ''monitor_tags'' = Some (VSet (attr_monitor_tags d))"
  "d_Get d ''recurrence.0.period'' = Some (VInt (rb_period (block0 d)))"
  "d_Get d ''recurrence.0.type'' = Some (VString (rb_type (block0 d)))"
  "d_Get d ''recurrence.0.until_date'' = Some (VInt (rb_until_date (block0 d)))"
  "d_Get d ''recurrence.0.until_occurrences'' = Some (VInt (rb_until_occurrences (block0 d)))"
  "d_Get d ''recurrence.0.week_days'' = Some (VList (rb_week_days (block0 d)))"
  "d_Get d ''recurrence.0.rrule'' = Some (VString (rb_rrule (block0 d)))"
  by (simp_all add: d_Get_def)

lemma d_GetOk_keys:
  "d_GetOk d ''start'' = (if attr_start d = 0 then None else Some (VInt (attr_start d)))"
  "d_GetOk d ''start_date'' =
     (if attr_start_date d = [] then None else Some (VString (attr_start_date d)))"
  "d_GetOk d ''end'' = (if attr_end d = 0 then None else Some (VInt (attr_end d)))"
  "d_GetOk d ''end_date'' =
     (if attr_end_date d = [] then None else Some (VString (attr_end_date d)))"
  "d_GetOk d ''timezone'' =
     (if attr_timezone d = [] then None else Some (VString (attr_timezone d)))"
  "d_GetOk d ''message'' =
     (if attr_message d = [] then None else Some (VString (attr_message d)))"
  "d_GetOk d ''monitor_id'' =
     (if attr_monitor_id d = 0 then None else Some (VInt (attr_monitor_id d)))"
  "d_GetOk d ''recurrence'' =
     (if attr_recurrence d = [] then None
      else Some (VMaps (map block_map (attr_recurrence d))))"
  by (simp_all add: d_GetOk_def d_Get_keys)

lemma d_GetOk_block_keys:
  "d_GetOk d ''recurrence.0.period'' =
     (if rb_period (block0 d) = 0 then None else Some (VInt (rb_period (block0 d))))"
  "d_GetOk d ''recurrence.0.type'' =
     (if rb_type (block0 d) = [] then None else Some (VString (rb_type (block0 d))))"
  "d_GetOk d ''recurrence.0.until_date'' =
     (if rb_until_date (block0 d) = 0 then None else Some (VInt (rb_until_date (block0 d))))"
  "d_GetOk d ''recurrence.0.until_occurrences'' =
     (if rb_until_occurrences (block0 d) = 0 then None
      else Some (VInt (rb_until_occurrences (block0 d))))"
  "d_GetOk d ''recurrence.0.week_days'' =
     (if rb_week_days (block0 d) = [] then None else Some (VList (rb_week_days (block0 d))))"
  "d_GetOk d ''recurrence.0.rrule'' =
     (if rb_rrule (block0 d) = [] then None else Some (VString (rb_rrule (block0 d))))"
  by (simp_all add: d_GetOk_def d_Get_keys)

subsection \<open>The boundary resolver and the apply decision\<close>

lemma resolver_start:
  "getDowntimeBoundaryTimestamp P d ''start_date'' ''start'' =
     Return (if attr_start_date d \<noteq> [] then
               (case P (attr_start_date d) of Some t \<Rightarrow> (t, ''start_date'') | None \<Rightarrow> (0, []))
             else if attr_start d \<noteq> 0 then (attr_start d, ''start'') else (0, []))"
  by (simp add: getDowntimeBoundaryTimestamp_def d_GetOk_keys split: option.splits)

lemma resolver_end:
  "getDowntimeBoundaryTimestamp P d ''end_date'' ''end'' =
     Return (if attr_end_date d \<noteq> [] then
               (case P (attr_end_date d) of Some t \<Rightarrow> (t, ''end_date'') | None \<Rightarrow> (0, []))
             else if attr_end d \<noteq> 0 then (attr_end d, ''end'') else (0, []))"
  by (simp add: getDowntimeBoundaryTimestamp_def d_GetOk_keys split: option.splits)

text \<open>
  C1, as amended. For the start and the end boundary of every configuration, with the
  value and the attribute name the resolver returns: when neither attribute is set, the
  apply decision is false on create and on update. When the date attribute is set and
  parses, or the date attribute is not set and the integer attribute is, the resolver
  returns that attribute's value and name; the decision is then true on create, and on
  update it is true exactly when the server's current value differs from that value or
  that attribute has changed. When the date attribute is set and does not parse, the
  resolver names no attribute and the decision is false on create and on update, whether
  or not the integer attribute is set.
\<close>

theorem boundary_apply_decision:
  assumes "(dateAttr, tsAttr) = (''start_date'', ''start'') \<or>
           (dateAttr, tsAttr) = (''end_date'', ''end'')"
  shows "\<exists>ts tsFrom.
           getDowntimeBoundaryTimestamp P d dateAttr tsAttr = Return (ts, tsFrom) \<and>
           ((\<exists>s. d_GetOk d dateAttr = Some (VString s)) \<or> d_GetOk d dateAttr = None) \<and>
           ((\<exists>n. d_GetOk d tsAttr = Some (VInt n)) \<or> d_GetOk d tsAttr = None) \<and>
           (d_GetOk d dateAttr = None \<and> d_GetOk d tsAttr = None \<longrightarrow>
              tsFrom = [] \<and>
              \<not> downtimeBoundaryNeedsApply d tsFrom apiTs ts False \<and>
              \<not> downtimeBoundaryNeedsApply d tsFrom apiTs ts True) \<and>
           (\<forall>s t. d_GetOk d dateAttr = Some (VString s) \<and> P s = Some t \<longrightarrow>
              ts = t \<and> tsFrom = dateAttr \<and>
              downtimeBoundaryNeedsApply d tsFrom apiTs ts False \<and>
              (downtimeBoundaryNeedsApply d tsFrom apiTs ts True \<longleftrightarrow>
                 apiTs \<noteq> t \<or> d_HasChange d dateAttr)) \<and>
           (\<forall>n. d_GetOk d dateAttr = None \<and> d_GetOk d tsAttr = Some (VInt n) \<longrightarrow>
              ts = n \<and> tsFrom = tsAttr \<and>
              downtimeBoundaryNeedsApply d tsFrom apiTs ts False \<and>
              (downtimeBoundaryNeedsApply d tsFrom apiTs ts True \<longleftrightarrow>
                 apiTs \<noteq> n \<or> d_HasChange d tsAttr)) \<and>
           (\<forall>s. d_GetOk d dateAttr = Some (VString s) \<and> P s = None \<longrightarrow>
              tsFrom = [] \<and>
              \<not> downtimeBoundaryNeedsApply d tsFrom apiTs ts False \<and>
              \<not> downtimeBoundaryNeedsApply d tsFrom apiTs ts True)"
proof -
  have "\<exists>r. getDowntimeBoundaryTimestamp P d dateAttr tsAttr = Return r"
    using assms by (auto simp: resolver_start resolver_end)
  then obtain r where r: "getDowntimeBoundaryTimestamp P d dateAttr tsAttr = Return r"
    by blast
  obtain ts tsFrom where p: "r = (ts, tsFrom)" by (cases r)
  have typed: "((\<exists>s. d_GetOk d dateAttr = Some (VString s)) \<or> d_GetOk d dateAttr = None) \<and>
               ((\<exists>n. d_GetOk d tsAttr = Some (VInt n)) \<or> d_GetOk d tsAttr = None)"
    using assms by (auto simp: d_GetOk_keys split: if_splits)
  have unset: "d_GetOk d dateAttr = None \<and> d_GetOk d tsAttr = None \<longrightarrow> tsFrom = []"
    using assms r p
    by (auto simp: resolver_start resolver_end d_GetOk_keys split: if_splits option.splits)
  have date: "\<forall>s t. d_GetOk d dateAttr = Some (VString s) \<and> P s = Some t \<longrightarrow>
                ts = t \<and> tsFrom = dateAttr"
    using assms r p
    by (auto simp: resolver_start resolver_end d_GetOk_keys split: if_splits)
  have int: "\<forall>n. d_GetOk d dateAttr = None \<and> d_GetOk d tsAttr = Some (VInt n) \<longrightarrow>
               ts = n \<and> tsFrom = tsAttr"
    using assms r p
    by (auto simp: resolver_start resolver_end d_GetOk_keys split: if_splits)
  have malformed: "\<forall>s. d_GetOk d dateAttr = Some (VString s) \<and> P s = None \<longrightarrow> tsFrom = []"
    using assms r p
    by (auto simp: resolver_start resolver_end d_GetOk_keys split: if_splits)
  have names: "dateAttr \<noteq> []" "tsAttr \<noteq> []"
    using assms by auto
  have no: "tsFrom = [] \<longrightarrow>
              \<not> downtimeBoundaryNeedsApply d tsFrom apiTs ts False \<and>
              \<not> downtimeBoundaryNeedsApply d tsFrom apiTs ts True"
    by (simp add: downtimeBoundaryNeedsApply_def)
  have yes: "tsFrom \<noteq> [] \<longrightarrow>
              downtimeBoundaryNeedsApply d tsFrom apiTs ts False \<and>
              (downtimeBoundaryNeedsApply d tsFrom apiTs ts True \<longleftrightarrow>
                 apiTs \<noteq> ts \<or> d_HasChange d tsFrom)"
    by (simp add: downtimeBoundaryNeedsApply_def)
  have c1: "d_GetOk d dateAttr = None \<and> d_GetOk d tsAttr = None \<longrightarrow>
              tsFrom = [] \<and>
              \<not> downtimeBoundaryNeedsApply d tsFrom apiTs ts False \<and>
              \<not> downtimeBoundaryNeedsApply d tsFrom apiTs ts True"
    using unset no by blast
  have c2: "\<forall>s t. d_GetOk d dateAttr = Some (VString s) \<and> P s = Some t \<longrightarrow>
              ts = t \<and> tsFrom = dateAttr \<and>
              downtimeBoundaryNeedsApply d tsFrom apiTs ts False \<and>
              (downtimeBoundaryNeedsApply d tsFrom apiTs ts True \<longleftrightarrow>
                 apiTs \<noteq> t \<or> d_HasChange d dateAttr)"
    using date yes names(1) by metis
  have c3: "\<forall>n. d_GetOk d dateAttr = None \<and> d_GetOk d tsAttr = Some (VInt n) \<longrightarrow>
              ts = n \<and> tsFrom = tsAttr \<and>
              downtimeBoundaryNeedsApply d tsFrom apiTs ts False \<and>
              (downtimeBoundaryNeedsApply d tsFrom apiTs ts True \<longleftrightarrow>
                 apiTs \<noteq> n \<or> d_HasChange d tsAttr)"
    using int yes names(2) by metis
  have c4: "\<forall>s. d_GetOk d dateAttr = Some (VString s) \<and> P s = None \<longrightarrow>
              tsFrom = [] \<and>
              \<not> downtimeBoundaryNeedsApply d tsFrom apiTs ts False \<and>
              \<not> downtimeBoundaryNeedsApply d tsFrom apiTs ts True"
    using malformed no by blast
  from r p typed c1 c2 c3 c4 show ?thesis by blast
qed

theorem boundary_apply_decision_witness:
  "(\<exists>ts tsFrom.
      getDowntimeBoundaryTimestamp exampleParse
        (exampleData\<lparr>attr_end_date := ''2021-01-01T00:00:00Z''\<rparr>) ''end_date'' ''end'' =
        Return (ts, tsFrom) \<and>
      ts = 1609459200 \<and> tsFrom = ''end_date'' \<and>
      downtimeBoundaryNeedsApply (exampleData\<lparr>attr_end_date := ''2021-01-01T00:00:00Z''\<rparr>)
        tsFrom 0 ts False \<and>
      downtimeBoundaryNeedsApply (exampleData\<lparr>attr_end_date := ''2021-01-01T00:00:00Z''\<rparr>)
        tsFrom 0 ts True) \<and>
   (\<exists>ts tsFrom.
      getDowntimeBoundaryTimestamp exampleParse (exampleData\<lparr>attr_start := 1700000000\<rparr>)
        ''start_date'' ''start'' = Return (ts, tsFrom) \<and>
      ts = 1700000000 \<and> tsFrom = ''start'' \<and>
      downtimeBoundaryNeedsApply (exampleData\<lparr>attr_start := 1700000000\<rparr>) tsFrom 0 ts False \<and>
      \<not> downtimeBoundaryNeedsApply (exampleData\<lparr>attr_start := 1700000000\<rparr>) tsFrom
          1700000000 ts True)"
proof -
  let ?e = "exampleData\<lparr>attr_end_date := ''2021-01-01T00:00:00Z''\<rparr>"
  let ?d = "exampleData\<lparr>attr_start := 1700000000\<rparr>"
  have he: "(''end_date'', ''end'') = (''start_date'', ''start'') \<or>
            (''end_date'', ''end'') = (''end_date'', ''end'')"
    by simp
  have hs: "(''start_date'', ''start'') = (''start_date'', ''start'') \<or>
            (''start_date'', ''start'') = (''end_date'', ''end'')"
    by simp
  have ge: "d_GetOk ?e ''end_date'' = Some (VString ''2021-01-01T00:00:00Z'')"
    by (simp add: d_GetOk_keys)
  have pe: "exampleParse ''2021-01-01T00:00:00Z'' = Some 1609459200"
    by (simp add: exampleParse_def)
  have gd: "d_GetOk ?d ''start_date'' = None" "d_GetOk ?d ''start'' = Some (VInt 1700000000)"
    by (simp_all add: d_GetOk_keys exampleData_def)
  have cd: "\<not> d_HasChange ?d ''start''"
    by (simp add: d_HasChange_def exampleData_def)
  have a: "\<exists>ts tsFrom.
      getDowntimeBoundaryTimestamp exampleParse ?e ''end_date'' ''end'' = Return (ts, tsFrom) \<and>
      ts = 1609459200 \<and> tsFrom = ''end_date'' \<and>
      downtimeBoundaryNeedsApply ?e tsFrom 0 ts False \<and>
      downtimeBoundaryNeedsApply ?e tsFrom 0 ts True"
    using boundary_apply_decision [OF he, of exampleParse ?e 0] ge pe by fastforce
  have b: "\<exists>ts tsFrom.
      getDowntimeBoundaryTimestamp exampleParse ?d ''start_date'' ''start'' = Return (ts, tsFrom) \<and>
      ts = 1700000000 \<and> tsFrom = ''start'' \<and>
      downtimeBoundaryNeedsApply ?d tsFrom 0 ts False \<and>
      \<not> downtimeBoundaryNeedsApply ?d tsFrom 1700000000 ts True"
  proof -
    from boundary_apply_decision [OF hs, of exampleParse ?d 0] gd
    obtain ts tsFrom where
      r: "getDowntimeBoundaryTimestamp exampleParse ?d ''start_date'' ''start'' =
            Return (ts, tsFrom)" and
      v: "ts = 1700000000" "tsFrom = ''start''" and
      c: "downtimeBoundaryNeedsApply ?d tsFrom 0 ts False"
      by auto
    from boundary_apply_decision [OF hs, of exampleParse ?d 1700000000] gd r cd
    have "\<not> downtimeBoundaryNeedsApply ?d tsFrom 1700000000 ts True"
      using v by auto
    with r v c show ?thesis by blast
  qed
  from a b show ?thesis by blast
qed

text \<open>
  The claim as stated fails where the date attribute supplies a string that does not
  parse: with \<open>start_date\<close> set to such a string and \<open>start\<close> set as well, the boundary is
  supplied by both attributes, yet the resolver names neither, the decision is false on
  create, and the request built on create carries no start.
\<close>

theorem boundary_apply_decision_counterexample:
  "d_GetOk (exampleData\<lparr>attr_start := 1700000000, attr_start_date := ''tomorrow''\<rparr>)
     ''start_date'' = Some (VString ''tomorrow'') \<and>
   d_GetOk (exampleData\<lparr>attr_start := 1700000000, attr_start_date := ''tomorrow''\<rparr>)
     ''start'' = Some (VInt 1700000000) \<and>
   getDowntimeBoundaryTimestamp exampleParse
     (exampleData\<lparr>attr_start := 1700000000, attr_start_date := ''tomorrow''\<rparr>)
     ''start_date'' ''start'' = Return (0, []) \<and>
   \<not> downtimeBoundaryNeedsApply
       (exampleData\<lparr>attr_start := 1700000000, attr_start_date := ''tomorrow''\<rparr>) [] 0 0 False \<and>
   buildDowntimeStruct exampleParse
     (exampleData\<lparr>attr_start := 1700000000, attr_start_date := ''tomorrow''\<rparr>)
     exampleClient False =
     Return (Inr (zeroDowntime\<lparr>Scope := Some [''host:web-1''], MonitorTags := Some [],
                    Timezone := Some ''UTC''\<rparr>))"
  by (simp add: buildDowntimeStruct_def buildDowntimeFields_def resolver_start resolver_end
        whenOk_int_def whenOk_string_def d_GetOk_keys d_Get_keys exampleData_def
        exampleParse_def downtimeBoundaryNeedsApply_def zeroDowntime_def)

text \<open>
  C2, as amended. For the start and the end boundary of every configuration the resolver
  returns, without an error: the parsed epoch value and the date attribute's name when the
  date attribute is set and parses; zero and no name when the date attribute is set and
  does not parse, whether or not the integer attribute is set; the integer attribute's
  value and name when the date attribute is not set and the integer attribute is; zero and
  no name when neither is set.
\<close>

theorem boundary_timestamp_result:
  assumes "(dateAttr, tsAttr) = (''start_date'', ''start'') \<or>
           (dateAttr, tsAttr) = (''end_date'', ''end'')"
  shows "((\<exists>s. d_GetOk d dateAttr = Some (VString s)) \<or> d_GetOk d dateAttr = None) \<and>
         ((\<exists>n. d_GetOk d tsAttr = Some (VInt n)) \<or> d_GetOk d tsAttr = None) \<and>
         (\<forall>s t. d_GetOk d dateAttr = Some (VString s) \<and> time_Parse s = Some t \<longrightarrow>
            getDowntimeBoundaryTimestamp time_Parse d dateAttr tsAttr = Return (t, dateAttr)) \<and>
         (\<forall>s. d_GetOk d dateAttr = Some (VString s) \<and> time_Parse s = None \<longrightarrow>
            getDowntimeBoundaryTimestamp time_Parse d dateAttr tsAttr = Return (0, [])) \<and>
         (\<forall>n. d_GetOk d dateAttr = None \<and> d_GetOk d tsAttr = Some (VInt n) \<longrightarrow>
            getDowntimeBoundaryTimestamp time_Parse d dateAttr tsAttr = Return (n, tsAttr)) \<and>
         (d_GetOk d dateAttr = None \<and> d_GetOk d tsAttr = None \<longrightarrow>
            getDowntimeBoundaryTimestamp time_Parse d dateAttr tsAttr = Return (0, []))"
  using assms
  by (auto simp: getDowntimeBoundaryTimestamp_def d_GetOk_keys split: if_splits)

theorem boundary_timestamp_result_witness:
  "getDowntimeBoundaryTimestamp exampleParse
     (exampleData\<lparr>attr_end_date := ''2021-01-01T00:00:00Z''\<rparr>) ''end_date'' ''end'' =
   Return (1609459200, ''end_date'')"
proof -
  let ?d = "exampleData\<lparr>attr_end_date := ''2021-01-01T00:00:00Z''\<rparr>"
  have h: "(''end_date'', ''end'') = (''start_date'', ''start'') \<or>
           (''end_date'', ''end'') = (''end_date'', ''end'')"
    by simp
  have g: "d_GetOk ?d ''end_date'' = Some (VString ''2021-01-01T00:00:00Z'')"
    by (simp add: d_GetOk_keys)
  have p: "exampleParse ''2021-01-01T00:00:00Z'' = Some 1609459200"
    by (simp add: exampleParse_def)
  from boundary_timestamp_result [OF h, of ?d exampleParse] g p show ?thesis by blast
qed

text \<open>
  The claim as stated fails where the date attribute is set to a string that does not
  parse and the integer attribute is set as well: the resolver returns zero and no name,
  not the integer attribute's value.
\<close>

theorem boundary_timestamp_counterexample:
  "getDowntimeBoundaryTimestamp exampleParse
     (exampleData\<lparr>attr_start := 1700000000, attr_start_date := ''tomorrow''\<rparr>)
     ''start_date'' ''start'' = Return (0, []) \<and>
   specifiedBoundary exampleParse ''start_date'' ''tomorrow'' ''start'' 1700000000 =
     (1700000000, ''start'')"
  by (simp add: resolver_start specifiedBoundary_def exampleParse_def)


subsection \<open>State projection\<close>

lemma run_writes_Nil_fun: "run_writes [] = (\<lambda>d. (d, None))"
  by (rule ext) simp

lemma run_writes_Cons_fun: "run_writes ((key, v) # ws) = try_Set key v (run_writes ws)"
  by (rule ext) simp

lemma projection_writes_cases:
  "projection_writes dt =
     (''active'', VBool (GetActive dt)) # (''disabled'', VBool (GetDisabled dt)) #
     (''end'', VInt (GetEnd dt)) # (''message'', VString (GetMessage dt)) #
     (case MonitorId dt of Val v \<Rightarrow> [(''monitor_id'', VInt v)] | _ \<Rightarrow> []) @
     (''timezone'', VString (GetTimezone dt)) #
     (case Recurrence dt of Val r \<Rightarrow> [(''recurrence'', VMaps [recurrenceMap r])] | _ \<Rightarrow> []) @
     (''scope'', VList (GetScope dt)) #
     (if GetMonitorTags dt \<noteq> [''*''] then [(''monitor_tags'', VList (GetMonitorTags dt))]
      else []) @
     [(''start'', VInt (GetStart dt))]"
  by (simp add: projection_writes_def)

lemma updateDowntimeState_run_writes:
  "updateDowntimeState d dt = run_writes (projection_writes dt) d"
  unfolding updateDowntimeState_def projection_writes_cases
  by (cases "MonitorId dt"; cases "Recurrence dt"; cases "GetMonitorTags dt = [''*'']")
     (simp_all add: run_writes_Nil_fun run_writes_Cons_fun del: run_writes.simps)

lemma write_field_frame:
  assumes "write_field d key v = Some d'"
  shows "rd_setError d' = rd_setError d" "rd_changed d' = rd_changed d"
    "rd_id d' = rd_id d" "rd_setCalls d' = rd_setCalls d"
  using assms by (auto simp: write_field_def split: if_splits val.splits)

lemma d_Set_frame:
  "rd_setError (fst (d_Set d key v)) = rd_setError d"
  "rd_changed (fst (d_Set d key v)) = rd_changed d"
  "rd_id (fst (d_Set d key v)) = rd_id d"
  "rd_setCalls (fst (d_Set d key v)) = rd_setCalls d @ [(key, v)]"
  by (auto simp: d_Set_def Let_def dest: write_field_frame split: option.splits)

lemma write_field_setCalls:
  "(write_field (d\<lparr>rd_setCalls := cs\<rparr>) key v = None) = (write_field d key v = None)"
  by (auto simp: write_field_def split: val.splits)

lemma write_field_None_cong:
  "(write_field d' key v = None) = (write_field d key v = None)"
  by (auto simp: write_field_def split: val.splits)

lemma set_result_eq:
  "set_result d (key, v) =
     (case rd_setError d key of
        Some err \<Rightarrow> Some err
      | None \<Rightarrow> if write_field d key v = None then Some (SetError key) else None)"
proof (cases "rd_setError d key")
  case None
  show ?thesis
  proof (cases "write_field (d\<lparr>rd_setCalls := rd_setCalls d @ [(key, v)]\<rparr>) key v")
    case wn: None
    with None write_field_setCalls [where d = d and cs = "rd_setCalls d @ [(key, v)]" and key = key and v = v] show ?thesis
      by (simp add: set_result_def d_Set_def Let_def)
  next
    case ws: (Some d2)
    with None write_field_setCalls [where d = d and cs = "rd_setCalls d @ [(key, v)]" and key = key and v = v] show ?thesis
      by (simp add: set_result_def d_Set_def Let_def)
  qed
next
  case (Some err)
  then show ?thesis by (simp add: set_result_def d_Set_def Let_def)
qed

lemma set_result_cong:
  assumes "rd_setError d' = rd_setError d"
  shows "set_result d' w = set_result d w"
proof (cases w)
  case (Pair key v)
  with assms write_field_None_cong [of d' key v d] show ?thesis
    by (auto simp: set_result_eq)
qed

lemma d_Set_failed:
  assumes "d_Set d key v = (d', Some e)"
  shows "d' = d\<lparr>rd_setCalls := rd_setCalls d @ [(key, v)]\<rparr>"
  using assms by (auto simp: d_Set_def Let_def split: option.splits)

lemma run_writes_frame:
  "rd_setError (fst (run_writes ws d)) = rd_setError d \<and>
   rd_changed (fst (run_writes ws d)) = rd_changed d \<and>
   rd_id (fst (run_writes ws d)) = rd_id d"
proof (induction ws arbitrary: d)
  case Nil
  show ?case by simp
next
  case (Cons w ws)
  obtain key v where w: "w = (key, v)" by (cases w)
  obtain d1 r where s: "d_Set d key v = (d1, r)" by (cases "d_Set d key v")
  have f: "rd_setError d1 = rd_setError d" "rd_changed d1 = rd_changed d" "rd_id d1 = rd_id d"
    using d_Set_frame [of d key v] s by simp_all
  show ?case
  proof (cases r)
    case None
    with Cons [of d1] w s f show ?thesis by (simp add: try_Set_def)
  next
    case (Some e)
    with w s f show ?thesis by (simp add: try_Set_def)
  qed
qed

lemma run_writes_success_calls:
  "snd (run_writes ws d) = None \<Longrightarrow> rd_setCalls (fst (run_writes ws d)) = rd_setCalls d @ ws"
proof (induction ws arbitrary: d)
  case Nil
  show ?case by simp
next
  case (Cons w ws)
  obtain key v where w: "w = (key, v)" by (cases w)
  obtain d1 r where s: "d_Set d key v = (d1, r)" by (cases "d_Set d key v")
  have c: "rd_setCalls d1 = rd_setCalls d @ [(key, v)]"
    using d_Set_frame(4) [of d key v] s by simp
  show ?case
  proof (cases r)
    case None
    with Cons.prems w s have "snd (run_writes ws d1) = None" by (simp add: try_Set_def)
    from Cons.IH [OF this] None w s c show ?thesis by (simp add: try_Set_def)
  next
    case (Some e)
    with Cons.prems w s show ?thesis by (simp add: try_Set_def)
  qed
qed

lemma run_writes_calls_prefix:
  "\<exists>n. rd_setCalls (fst (run_writes ws d)) = rd_setCalls d @ take n ws"
proof (induction ws arbitrary: d)
  case Nil
  show ?case by simp
next
  case (Cons w ws)
  obtain key v where w: "w = (key, v)" by (cases w)
  obtain d1 r where s: "d_Set d key v = (d1, r)" by (cases "d_Set d key v")
  have c: "rd_setCalls d1 = rd_setCalls d @ [(key, v)]"
    using d_Set_frame(4) [of d key v] s by simp
  show ?case
  proof (cases r)
    case None
    from Cons.IH [of d1] obtain n where
      "rd_setCalls (fst (run_writes ws d1)) = rd_setCalls d1 @ take n ws" by blast
    with None w s c have
      "rd_setCalls (fst (run_writes (w # ws) d)) = rd_setCalls d @ take (Suc n) (w # ws)"
      by (simp add: try_Set_def)
    then show ?thesis by blast
  next
    case (Some e)
    with w s c have
      "rd_setCalls (fst (run_writes (w # ws) d)) = rd_setCalls d @ take (Suc 0) (w # ws)"
      by (simp add: try_Set_def)
    then show ?thesis by blast
  qed
qed


lemma run_writes_first_failure:
  assumes "list_all (\<lambda>p. set_result d p = None) pre" and "set_result d w = Some e"
  shows "run_writes (pre @ w # post) d =
           ((fst (run_writes pre d))\<lparr>rd_setCalls := rd_setCalls d @ pre @ [w]\<rparr>, Some e)"
  using assms
proof (induction pre arbitrary: d)
  case Nil
  obtain key v where w: "w = (key, v)" by (cases w)
  obtain d1 where s: "d_Set d key v = (d1, Some e)"
    using Nil.prems(2) w by (cases "d_Set d key v") (simp add: set_result_def)
  from d_Set_failed [OF s] w s show ?case by (simp add: try_Set_def)
next
  case (Cons p pre)
  obtain key v where p: "p = (key, v)" by (cases p)
  from Cons.prems(1) have p_ok: "set_result d p = None"
    and rest: "list_all (\<lambda>p. set_result d p = None) pre" by simp_all
  obtain d1 where s: "d_Set d key v = (d1, None)"
    using p_ok p by (cases "d_Set d key v") (simp add: set_result_def)
  have e1: "rd_setError d1 = rd_setError d" using d_Set_frame(1) [of d key v] s by simp
  have c1: "rd_setCalls d1 = rd_setCalls d @ [(key, v)]"
    using d_Set_frame(4) [of d key v] s by simp
  have rest1: "list_all (\<lambda>p. set_result d1 p = None) pre"
    using rest set_result_cong [OF e1] by (simp add: list_all_iff)
  have w1: "set_result d1 w = Some e" using Cons.prems(2) set_result_cong [OF e1] by simp
  from Cons.IH [OF rest1 w1] p s c1 show ?case by (simp add: try_Set_def)
qed

lemma run_writes_split:
  assumes "run_writes (pre @ (key, v) # post) d = (d', None)"
  shows "\<exists>d1 d2. run_writes pre d = (d1, None) \<and> d_Set d1 key v = (d2, None) \<and>
           run_writes post d2 = (d', None)"
  using assms
proof (induction pre arbitrary: d)
  case Nil
  then show ?case by (auto simp: try_Set_def split: prod.splits option.splits)
next
  case (Cons p pre)
  obtain k u where p: "p = (k, u)" by (cases p)
  obtain d0 r where s: "d_Set d k u = (d0, r)" by (cases "d_Set d k u")
  from Cons.prems p s have r: "r = None" by (cases r) (simp_all add: try_Set_def)
  with Cons.prems p s have "run_writes (pre @ (key, v) # post) d0 = (d', None)"
    by (simp add: try_Set_def)
  from Cons.IH [OF this] p s r show ?case by (simp add: try_Set_def)
qed

lemma write_field_keeps:
  assumes "write_field d key v = Some d'"
  shows "key \<noteq> ''message'' \<Longrightarrow> attr_message d' = attr_message d"
    and "key \<noteq> ''scope'' \<Longrightarrow> attr_scope d' = attr_scope d"
    and "key \<noteq> ''monitor_tags'' \<Longrightarrow> attr_monitor_tags d' = attr_monitor_tags d"
  using assms by (auto simp: write_field_def split: if_splits val.splits)

lemma d_Set_keeps:
  "key \<noteq> ''message'' \<Longrightarrow> attr_message (fst (d_Set d key v)) = attr_message d"
  "key \<noteq> ''scope'' \<Longrightarrow> attr_scope (fst (d_Set d key v)) = attr_scope d"
  "key \<noteq> ''monitor_tags'' \<Longrightarrow> attr_monitor_tags (fst (d_Set d key v)) = attr_monitor_tags d"
  by (auto simp: d_Set_def Let_def dest: write_field_keeps split: option.splits)

lemma d_Set_stores:
  "d_Set d ''message'' (VString s) = (d', None) \<Longrightarrow> attr_message d' = s"
  "d_Set d ''scope'' (VList xs) = (d', None) \<Longrightarrow> attr_scope d' = xs"
  "d_Set d ''monitor_tags'' (VList xs) = (d', None) \<Longrightarrow> attr_monitor_tags d' = remdups xs"
  by (auto simp: d_Set_def Let_def write_field_def split: option.splits)

lemma run_writes_keeps_message:
  "list_all (\<lambda>w. fst w \<noteq> ''message'') ws \<Longrightarrow>
   attr_message (fst (run_writes ws d)) = attr_message d"
proof (induction ws arbitrary: d)
  case Nil
  show ?case by simp
next
  case (Cons w ws)
  obtain key v where w: "w = (key, v)" by (cases w)
  obtain d1 r where s: "d_Set d key v = (d1, r)" by (cases "d_Set d key v")
  from Cons.prems w have k: "key \<noteq> ''message''" and rest: "list_all (\<lambda>w. fst w \<noteq> ''message'') ws"
    by simp_all
  from d_Set_keeps(1) [OF k, of d v] s have a: "attr_message d1 = attr_message d" by simp
  show ?case
  proof (cases r)
    case None
    with Cons.IH [OF rest, of d1] w s a show ?thesis by (simp add: try_Set_def)
  next
    case (Some e)
    with w s a show ?thesis by (simp add: try_Set_def)
  qed
qed

lemma run_writes_keeps_scope:
  "list_all (\<lambda>w. fst w \<noteq> ''scope'') ws \<Longrightarrow>
   attr_scope (fst (run_writes ws d)) = attr_scope d"
proof (induction ws arbitrary: d)
  case Nil
  show ?case by simp
next
  case (Cons w ws)
  obtain key v where w: "w = (key, v)" by (cases w)
  obtain d1 r where s: "d_Set d key v = (d1, r)" by (cases "d_Set d key v")
  from Cons.prems w have k: "key \<noteq> ''scope''" and rest: "list_all (\<lambda>w. fst w \<noteq> ''scope'') ws"
    by simp_all
  from d_Set_keeps(2) [OF k, of d v] s have a: "attr_scope d1 = attr_scope d" by simp
  show ?case
  proof (cases r)
    case None
    with Cons.IH [OF rest, of d1] w s a show ?thesis by (simp add: try_Set_def)
  next
    case (Some e)
    with w s a show ?thesis by (simp add: try_Set_def)
  qed
qed

lemma run_writes_keeps_monitor_tags:
  "list_all (\<lambda>w. fst w \<noteq> ''monitor_tags'') ws \<Longrightarrow>
   attr_monitor_tags (fst (run_writes ws d)) = attr_monitor_tags d"
proof (induction ws arbitrary: d)
  case Nil
  show ?case by simp
next
  case (Cons w ws)
  obtain key v where w: "w = (key, v)" by (cases w)
  obtain d1 r where s: "d_Set d key v = (d1, r)" by (cases "d_Set d key v")
  from Cons.prems w have k: "key \<noteq> ''monitor_tags''"
    and rest: "list_all (\<lambda>w. fst w \<noteq> ''monitor_tags'') ws"
    by simp_all
  from d_Set_keeps(3) [OF k, of d v] s have a: "attr_monitor_tags d1 = attr_monitor_tags d"
    by simp
  show ?case
  proof (cases r)
    case None
    with Cons.IH [OF rest, of d1] w s a show ?thesis by (simp add: try_Set_def)
  next
    case (Some e)
    with w s a show ?thesis by (simp add: try_Set_def)
  qed
qed

lemma projection_writes_message:
  "\<exists>pre post. projection_writes dt = pre @ (''message'', VString (GetMessage dt)) # post \<and>
     list_all (\<lambda>w. fst w \<noteq> ''message'') post"
proof -
  let ?pre = "[(''active'', VBool (GetActive dt)), (''disabled'', VBool (GetDisabled dt)),
               (''end'', VInt (GetEnd dt))]"
  let ?post = "(case MonitorId dt of Val v \<Rightarrow> [(''monitor_id'', VInt v)] | _ \<Rightarrow> []) @
     (''timezone'', VString (GetTimezone dt)) #
     (case Recurrence dt of Val r \<Rightarrow> [(''recurrence'', VMaps [recurrenceMap r])] | _ \<Rightarrow> []) @
     (''scope'', VList (GetScope dt)) #
     (if GetMonitorTags dt \<noteq> [''*''] then [(''monitor_tags'', VList (GetMonitorTags dt))]
      else []) @
     [(''start'', VInt (GetStart dt))]"
  have "projection_writes dt = ?pre @ (''message'', VString (GetMessage dt)) # ?post"
    by (simp add: projection_writes_def)
  moreover have "list_all (\<lambda>w. fst w \<noteq> ''message'') ?post"
    by (simp split: nullable.splits)
  ultimately show ?thesis by blast
qed

lemma projection_writes_scope:
  "\<exists>pre post. projection_writes dt = pre @ (''scope'', VList (GetScope dt)) # post \<and>
     list_all (\<lambda>w. fst w \<noteq> ''scope'') post"
proof -
  let ?pre = "[(''active'', VBool (GetActive dt)), (''disabled'', VBool (GetDisabled dt)),
               (''end'', VInt (GetEnd dt)), (''message'', VString (GetMessage dt))] @
     (case MonitorId dt of Val v \<Rightarrow> [(''monitor_id'', VInt v)] | _ \<Rightarrow> []) @
     [(''timezone'', VString (GetTimezone dt))] @
     (case Recurrence dt of Val r \<Rightarrow> [(''recurrence'', VMaps [recurrenceMap r])] | _ \<Rightarrow> [])"
  let ?post = "(if GetMonitorTags dt \<noteq> [''*'']
      then [(''monitor_tags'', VList (GetMonitorTags dt))] else []) @
     [(''start'', VInt (GetStart dt))]"
  have "projection_writes dt = ?pre @ (''scope'', VList (GetScope dt)) # ?post"
    by (simp add: projection_writes_def)
  moreover have "list_all (\<lambda>w. fst w \<noteq> ''scope'') ?post"
    by simp
  ultimately show ?thesis by blast
qed

lemma projection_writes_monitor_tags:
  assumes "GetMonitorTags dt \<noteq> [''*'']"
  shows "\<exists>pre. projection_writes dt =
           pre @ (''monitor_tags'', VList (GetMonitorTags dt)) # [(''start'', VInt (GetStart dt))]"
proof -
  let ?pre = "[(''active'', VBool (GetActive dt)), (''disabled'', VBool (GetDisabled dt)),
               (''end'', VInt (GetEnd dt)), (''message'', VString (GetMessage dt))] @
     (case MonitorId dt of Val v \<Rightarrow> [(''monitor_id'', VInt v)] | _ \<Rightarrow> []) @
     [(''timezone'', VString (GetTimezone dt))] @
     (case Recurrence dt of Val r \<Rightarrow> [(''recurrence'', VMaps [recurrenceMap r])] | _ \<Rightarrow> []) @
     [(''scope'', VList (GetScope dt))]"
  have "projection_writes dt =
          ?pre @ (''monitor_tags'', VList (GetMonitorTags dt)) # [(''start'', VInt (GetStart dt))]"
    using assms by (simp add: projection_writes_def)
  then show ?thesis by blast
qed

lemma projection_writes_sentinel:
  assumes "GetMonitorTags dt = [''*'']"
  shows "list_all (\<lambda>w. fst w \<noteq> ''monitor_tags'') (projection_writes dt)"
  using assms by (simp add: projection_writes_def split: nullable.splits)

lemma projection_success:
  assumes "updateDowntimeState d dt = (d', None)"
  shows "attr_message d' = GetMessage dt"
    and "attr_scope d' = GetScope dt"
    and "attr_monitor_tags d' =
           (if GetMonitorTags dt = [''*''] then attr_monitor_tags d
            else remdups (GetMonitorTags dt))"
    and "rd_id d' = rd_id d"
    and "calls_made d d' = projection_writes dt"
proof -
  from assms have run: "run_writes (projection_writes dt) d = (d', None)"
    by (simp add: updateDowntimeState_run_writes)
  show "attr_message d' = GetMessage dt"
  proof -
    from projection_writes_message [of dt] obtain pre post where
      w: "projection_writes dt = pre @ (''message'', VString (GetMessage dt)) # post" and
      k: "list_all (\<lambda>w. fst w \<noteq> ''message'') post" by blast
    from run_writes_split [of pre "''message''" "VString (GetMessage dt)" post d d'] run w
    obtain d1 d2 where s: "d_Set d1 ''message'' (VString (GetMessage dt)) = (d2, None)"
      and r: "run_writes post d2 = (d', None)" by auto
    from run_writes_keeps_message [OF k, of d2] r d_Set_stores(1) [OF s] show ?thesis by simp
  qed
  show "attr_scope d' = GetScope dt"
  proof -
    from projection_writes_scope [of dt] obtain pre post where
      w: "projection_writes dt = pre @ (''scope'', VList (GetScope dt)) # post" and
      k: "list_all (\<lambda>w. fst w \<noteq> ''scope'') post" by blast
    from run_writes_split [of pre "''scope''" "VList (GetScope dt)" post d d'] run w
    obtain d1 d2 where s: "d_Set d1 ''scope'' (VList (GetScope dt)) = (d2, None)"
      and r: "run_writes post d2 = (d', None)" by auto
    from run_writes_keeps_scope [OF k, of d2] r d_Set_stores(2) [OF s] show ?thesis by simp
  qed
  show "attr_monitor_tags d' =
          (if GetMonitorTags dt = [''*''] then attr_monitor_tags d
           else remdups (GetMonitorTags dt))"
  proof (cases "GetMonitorTags dt = [''*'']")
    case True
    from run_writes_keeps_monitor_tags [OF projection_writes_sentinel [OF True], of d] run True
    show ?thesis by simp
  next
    case False
    from projection_writes_monitor_tags [OF False] obtain pre where
      w: "projection_writes dt =
            pre @ (''monitor_tags'', VList (GetMonitorTags dt)) # [(''start'', VInt (GetStart dt))]"
      by blast
    from run_writes_split [of pre "''monitor_tags''" "VList (GetMonitorTags dt)"
        "[(''start'', VInt (GetStart dt))]" d d'] run w
    obtain d1 d2 where s: "d_Set d1 ''monitor_tags'' (VList (GetMonitorTags dt)) = (d2, None)"
      and r: "run_writes [(''start'', VInt (GetStart dt))] d2 = (d', None)" by auto
    have "list_all (\<lambda>w. fst w \<noteq> ''monitor_tags'') [(''start'', VInt (GetStart dt))]" by simp
    from run_writes_keeps_monitor_tags [OF this, of d2] r d_Set_stores(3) [OF s] False
    show ?thesis by simp
  qed
  show "rd_id d' = rd_id d"
    using run_writes_frame [of "projection_writes dt" d] run by simp
  show "calls_made d d' = projection_writes dt"
    using run_writes_success_calls [of "projection_writes dt" d] run
    by (simp add: calls_made_def)
qed

lemma run_writes_all_ok:
  "list_all (\<lambda>p. set_result d p = None) ws \<Longrightarrow> snd (run_writes ws d) = None"
proof (induction ws arbitrary: d)
  case Nil
  show ?case by simp
next
  case (Cons w ws)
  obtain key v where w: "w = (key, v)" by (cases w)
  from Cons.prems have w_ok: "set_result d w = None"
    and rest: "list_all (\<lambda>p. set_result d p = None) ws" by simp_all
  obtain d1 where s: "d_Set d key v = (d1, None)"
    using w_ok w by (cases "d_Set d key v") (simp add: set_result_def)
  have e1: "rd_setError d1 = rd_setError d" using d_Set_frame(1) [of d key v] s by simp
  have "list_all (\<lambda>p. set_result d1 p = None) ws"
    using rest set_result_cong [OF e1] by (simp add: list_all_iff)
  from Cons.IH [OF this] w s show ?case by (simp add: try_Set_def)
qed

lemma projection_succeeds:
  assumes "rd_setError d = (\<lambda>key. None)"
  shows "snd (updateDowntimeState d dt) = None"
proof -
  have "list_all (\<lambda>p. set_result d p = None) (projection_writes dt)"
    using assms
    by (simp add: projection_writes_def set_result_eq write_field_def split: nullable.splits)
  from run_writes_all_ok [OF this] show ?thesis
    by (simp add: updateDowntimeState_run_writes)
qed

text \<open>
  C7. Let the calls of \<open>d.Set\<close> that state projection makes for a remote downtime be
  \<open>pre\<close>, then \<open>w\<close>, then \<open>post\<close>, where the calls of \<open>pre\<close> succeed and the call \<open>w\<close> fails
  with \<open>err\<close>. Then the projection returns \<open>err\<close>, the calls it has made are those of
  \<open>pre\<close> and \<open>w\<close> and none of \<open>post\<close>, and the resource data is as the calls of \<open>pre\<close>
  left it.
\<close>

theorem projection_stops_at_first_failure:
  assumes "projection_writes dt = pre @ w # post"
    and "list_all (\<lambda>p. set_result d p = None) pre"
    and "set_result d w = Some err"
  shows "snd (updateDowntimeState d dt) = Some err \<and>
         calls_made d (fst (updateDowntimeState d dt)) = pre @ [w] \<and>
         fst (updateDowntimeState d dt) =
           (fst (run_writes pre d))\<lparr>rd_setCalls := rd_setCalls d @ pre @ [w]\<rparr>"
proof -
  from run_writes_first_failure [OF assms(2) assms(3), of post] assms(1)
  have "updateDowntimeState d dt =
          ((fst (run_writes pre d))\<lparr>rd_setCalls := rd_setCalls d @ pre @ [w]\<rparr>, Some err)"
    by (simp add: updateDowntimeState_run_writes)
  then show ?thesis by (simp add: calls_made_def)
qed

theorem projection_stops_at_first_failure_witness:
  "snd (updateDowntimeState failingData exampleRemote) =
     Some (SetError ''message: cannot be written'') \<and>
   calls_made failingData (fst (updateDowntimeState failingData exampleRemote)) =
     [(''active'', VBool False), (''disabled'', VBool False), (''end'', VInt 0),
      (''message'', VString ''  deploy  '')]"
proof -
  have w: "projection_writes exampleRemote =
             [(''active'', VBool False), (''disabled'', VBool False), (''end'', VInt 0)] @
             (''message'', VString ''  deploy  '') #
             [(''timezone'', VString ''UTC''), (''scope'', VList [''host:web-1'']),
              (''start'', VInt 1700000000)]"
    by (simp add: projection_writes_def exampleRemote_def zeroDowntime_def GetActive_def
          GetDisabled_def GetEnd_def GetMessage_def GetTimezone_def GetScope_def
          GetMonitorTags_def GetStart_def)
  have pre: "list_all (\<lambda>p. set_result failingData p = None)
               [(''active'', VBool False), (''disabled'', VBool False), (''end'', VInt 0)]"
    by (simp add: set_result_eq failingData_def write_field_def)
  have f: "set_result failingData (''message'', VString ''  deploy  '') =
             Some (SetError ''message: cannot be written'')"
    by (simp add: set_result_eq failingData_def)
  have r: "snd (updateDowntimeState failingData exampleRemote) =
             Some (SetError ''message: cannot be written'') \<and>
           calls_made failingData (fst (updateDowntimeState failingData exampleRemote)) =
             [(''active'', VBool False), (''disabled'', VBool False), (''end'', VInt 0)] @
             [(''message'', VString ''  deploy  '')]"
    using projection_stops_at_first_failure [OF w pre f] by blast
  then show ?thesis by simp
qed

text \<open>
  C4. When the remote \<open>monitor_tags\<close> is exactly \<open>["*"]\<close>, state projection makes no call of
  \<open>d.Set\<close> for \<open>monitor_tags\<close> and leaves the attribute as it was. For any other remote
  value, a projection that returns without error has called \<open>d.Set\<close> for \<open>monitor_tags\<close>
  with the remote list as it is, and the attribute then holds the remote tags as a set.
\<close>

theorem monitor_tags_projection:
  assumes "updateDowntimeState d dt = (d', res)"
  shows "(GetMonitorTags dt = [''*''] \<longrightarrow>
            list_all (\<lambda>w. fst w \<noteq> ''monitor_tags'') (calls_made d d') \<and>
            attr_monitor_tags d' = attr_monitor_tags d) \<and>
         (GetMonitorTags dt \<noteq> [''*''] \<and> res = None \<longrightarrow>
            (''monitor_tags'', VList (GetMonitorTags dt)) \<in> set (calls_made d d') \<and>
            set (attr_monitor_tags d') = set (GetMonitorTags dt))"
proof -
  from assms have run: "run_writes (projection_writes dt) d = (d', res)"
    by (simp add: updateDowntimeState_run_writes)
  have sentinel: "list_all (\<lambda>w. fst w \<noteq> ''monitor_tags'') (calls_made d d') \<and>
      attr_monitor_tags d' = attr_monitor_tags d" if t: "GetMonitorTags dt = [''*'']"
  proof -
    from run_writes_calls_prefix [of "projection_writes dt" d] run obtain n where
      "rd_setCalls d' = rd_setCalls d @ take n (projection_writes dt)" by auto
    then have "calls_made d d' = take n (projection_writes dt)"
      by (simp add: calls_made_def)
    moreover from projection_writes_sentinel [OF t]
    have "list_all (\<lambda>w. fst w \<noteq> ''monitor_tags'') (take n (projection_writes dt))"
      by (auto simp: list_all_iff dest: in_set_takeD)
    moreover from run_writes_keeps_monitor_tags [OF projection_writes_sentinel [OF t], of d] run
    have "attr_monitor_tags d' = attr_monitor_tags d" by simp
    ultimately show ?thesis by simp
  qed
  have written: "(''monitor_tags'', VList (GetMonitorTags dt)) \<in> set (calls_made d d') \<and>
      set (attr_monitor_tags d') = set (GetMonitorTags dt)"
    if t: "GetMonitorTags dt \<noteq> [''*'']" and r: "res = None"
  proof -
    from assms r have ok: "updateDowntimeState d dt = (d', None)" by simp
    from projection_success(5) [OF ok] t
    have "(''monitor_tags'', VList (GetMonitorTags dt)) \<in> set (calls_made d d')"
      by (simp add: projection_writes_def)
    moreover from projection_success(3) [OF ok] t
    have "set (attr_monitor_tags d') = set (GetMonitorTags dt)" by simp
    ultimately show ?thesis by simp
  qed
  from sentinel written show ?thesis by blast
qed

theorem monitor_tags_projection_witness:
  "attr_monitor_tags (fst (updateDowntimeState exampleData exampleRemote)) = [] \<and>
   set (attr_monitor_tags
          (fst (updateDowntimeState exampleData
                  (exampleRemote\<lparr>MonitorTags := Some [''*'', ''foo'']\<rparr>)))) =
     {''*'', ''foo''} \<and>
   set (attr_monitor_tags
          (fst (updateDowntimeState (exampleData\<lparr>attr_monitor_tags := [''a'']\<rparr>)
                  (exampleRemote\<lparr>MonitorTags := Some []\<rparr>)))) = {}"
proof -
  let ?d = "exampleData\<lparr>attr_monitor_tags := [''a'']\<rparr>"
  let ?foo = "exampleRemote\<lparr>MonitorTags := Some [''*'', ''foo'']\<rparr>"
  let ?none = "exampleRemote\<lparr>MonitorTags := Some []\<rparr>"
  have e: "rd_setError exampleData = (\<lambda>key. None)" "rd_setError ?d = (\<lambda>key. None)"
    by (simp_all add: exampleData_def)
  have a: "updateDowntimeState exampleData exampleRemote =
             (fst (updateDowntimeState exampleData exampleRemote), None)"
    using projection_succeeds [OF e(1), of exampleRemote] by (simp add: prod_eq_iff)
  have b: "updateDowntimeState exampleData ?foo =
             (fst (updateDowntimeState exampleData ?foo), None)"
    using projection_succeeds [OF e(1), of ?foo] by (simp add: prod_eq_iff)
  have c: "updateDowntimeState ?d ?none = (fst (updateDowntimeState ?d ?none), None)"
    using projection_succeeds [OF e(2), of ?none] by (simp add: prod_eq_iff)
  have t: "GetMonitorTags exampleRemote = [''*'']" "GetMonitorTags ?foo = [''*'', ''foo'']"
    "GetMonitorTags ?none = []" "attr_monitor_tags exampleData = []"
    by (simp_all add: GetMonitorTags_def exampleRemote_def exampleData_def)
  from monitor_tags_projection [OF a] monitor_tags_projection [OF b]
    monitor_tags_projection [OF c] t
  show ?thesis by simp
qed


subsection \<open>The request builder\<close>

lemma buildRecurrence_Return:
  "buildRecurrence d =
     Return \<lparr>Period = (if rb_period (block0 d) = 0 then None
                       else Some (to_int32 (rb_period (block0 d)))),
             Type = (if rb_type (block0 d) = [] then None else Some (rb_type (block0 d))),
             UntilDate = (if rb_until_date (block0 d) = 0 then None
                          else Some (rb_until_date (block0 d))),
             UntilOccurrences = (if rb_until_occurrences (block0 d) = 0 then None
                                 else Some (to_int32 (rb_until_occurrences (block0 d)))),
             WeekDays = (if rb_week_days (block0 d) = [] then None
                         else Some (rb_week_days (block0 d))),
             Rrule = (if rb_rrule (block0 d) = [] then None else Some (rb_rrule (block0 d)))\<rparr>"
  by (simp add: buildRecurrence_def whenOk_int_def whenOk_string_def whenOk_list_def
        d_GetOk_block_keys zeroRecurrence_def)

lemma buildDowntimeFields_Return:
  "\<exists>dt. buildDowntimeFields P d currentStart currentEnd updating = Return dt \<and>
     Message dt = (if attr_message d = [] then None else Some (TrimSpace (attr_message d))) \<and>
     MonitorId dt = (if attr_monitor_id d = 0 then Unset else Val (attr_monitor_id d)) \<and>
     Scope dt = Some (attr_scope d) \<and>
     MonitorTags dt = Some (attr_monitor_tags d) \<and>
     Timezone dt = (if attr_timezone d = [] then None else Some (attr_timezone d)) \<and>
     Id_dt dt = None"
proof -
  obtain r where r: "buildRecurrence d = Return r"
    by (simp add: buildRecurrence_Return)
  have "\<exists>p. getDowntimeBoundaryTimestamp P d ''end_date'' ''end'' = Return p"
    by (simp add: resolver_end)
  then obtain ev en where
    e: "getDowntimeBoundaryTimestamp P d ''end_date'' ''end'' = Return (ev, en)"
    by auto
  have "\<exists>p. getDowntimeBoundaryTimestamp P d ''start_date'' ''start'' = Return p"
    by (simp add: resolver_start)
  then obtain sv sn where
    s: "getDowntimeBoundaryTimestamp P d ''start_date'' ''start'' = Return (sv, sn)"
    by auto
  show ?thesis
    by (simp add: buildDowntimeFields_def e s r whenOk_int_def whenOk_string_def
          d_GetOk_keys d_Get_keys zeroDowntime_def)
qed

lemma buildDowntimeStruct_fields:
  assumes "buildDowntimeStruct P d client updating = Return (Inr dt)"
  shows "\<exists>currentStart currentEnd.
           buildDowntimeFields P d currentStart currentEnd updating = Return dt"
proof (cases updating)
  case False
  with assms have "buildDowntimeFields P d 0 0 False = Return dt"
    by (simp add: buildDowntimeStruct_def bind_def split: outcome.splits)
  with False show ?thesis by auto
next
  case True
  with assms obtain ident where i: "ParseInt (d_Id d) = Some ident"
    by (cases "ParseInt (d_Id d)") (simp_all add: buildDowntimeStruct_def)
  obtain currdt httpresp res where g: "GetDowntime client ident = (currdt, httpresp, res)"
    by (cases "GetDowntime client ident")
  from assms True i g have r: "res = None"
    by (cases res) (simp_all add: buildDowntimeStruct_def split: option.splits)
  from assms True i g r
  have "buildDowntimeFields P d (GetStart currdt) (GetEnd currdt) True = Return dt"
    by (simp add: buildDowntimeStruct_def bind_def split: outcome.splits)
  with True show ?thesis by auto
qed

lemma buildDowntimeStruct_create:
  "\<exists>dt. buildDowntimeStruct P d client False = Return (Inr dt)"
  using buildDowntimeFields_Return [of P d 0 0 False]
  by (auto simp: buildDowntimeStruct_def)

lemma buildDowntimeStruct_update:
  assumes "ParseInt (d_Id d) = Some ident"
    and "GetDowntime client ident = (currdt, httpresp, None)"
  shows "buildDowntimeStruct P d client True =
           bind (buildDowntimeFields P d (GetStart currdt) (GetEnd currdt) True)
             (\<lambda>dt. Return (Inr dt))"
  using assms by (simp add: buildDowntimeStruct_def)

lemma TrimSpace_Nil: "TrimSpace [] = []"
  by (simp add: TrimSpace_def)

lemma dropWhile_trimmed_front:
  "dropWhile P (rev (dropWhile P (rev (dropWhile P s)))) = rev (dropWhile P (rev (dropWhile P s)))"
proof -
  let ?t = "dropWhile P s"
  let ?u = "rev (dropWhile P (rev ?t))"
  show "dropWhile P ?u = ?u"
  proof (cases ?u)
    case Nil
    show ?thesis unfolding Nil by simp
  next
    case (Cons x xs)
    have "rev (takeWhile P (rev ?t) @ dropWhile P (rev ?t)) = rev (rev ?t)"
      by (simp only: takeWhile_dropWhile_id)
    then have t: "?t = ?u @ rev (takeWhile P (rev ?t))"
      by (simp only: rev_append rev_rev_ident)
    with Cons have "?t = x # (xs @ rev (takeWhile P (rev ?t)))" by simp
    then have "hd ?t = x" and "?t \<noteq> []" by (metis list.sel(1), metis list.distinct(1))
    then have "\<not> P x" using hd_dropWhile [of P s] by auto
    then show ?thesis unfolding Cons by simp
  qed
qed

lemma TrimSpace_idem: "TrimSpace (TrimSpace s) = TrimSpace s"
  by (simp add: TrimSpace_def dropWhile_trimmed_front)

lemma example_create_request:
  "buildDowntimeStruct exampleParse exampleData exampleClient False =
     Return (Inr (zeroDowntime\<lparr>Scope := Some [''host:web-1''], MonitorTags := Some [],
                    Timezone := Some ''UTC''\<rparr>))"
  by (simp add: buildDowntimeStruct_def buildDowntimeFields_def resolver_start resolver_end
        whenOk_int_def whenOk_string_def d_GetOk_keys d_Get_keys exampleData_def
        downtimeBoundaryNeedsApply_def zeroDowntime_def)

lemma example_create_request_set:
  "buildDowntimeStruct exampleParse
     (exampleData\<lparr>attr_message := '' hi '', attr_monitor_id := 7\<rparr>) exampleClient False =
     Return (Inr (zeroDowntime\<lparr>Message := Some ''hi'', MonitorId := Val 7,
                    Scope := Some [''host:web-1''], MonitorTags := Some [],
                    Timezone := Some ''UTC''\<rparr>))"
  by (simp add: buildDowntimeStruct_def buildDowntimeFields_def resolver_start resolver_end
        whenOk_int_def whenOk_string_def d_GetOk_keys d_Get_keys exampleData_def
        downtimeBoundaryNeedsApply_def zeroDowntime_def TrimSpace_def isSpace_def)

text \<open>
  C5, as amended. Every request the builder returns carries \<open>monitor_tags\<close>: the tags of the
  configuration, and the empty list when \<open>monitor_tags\<close> is not set. Each of \<open>message\<close>,
  \<open>monitor_id\<close> and \<open>timezone\<close> is absent from the request when it is not set in the
  configuration and present with the configured value (the message trimmed) when it is.
  (Line 293 calls \<open>SetMonitorTags\<close> without a test, with the nil slice when the set is
  empty; the field is then set, which the model writes \<open>Some []\<close>.)
\<close>

theorem request_optional_fields:
  assumes "buildDowntimeStruct P d client updating = Return (Inr dt)"
  shows "MonitorTags dt = Some (attr_monitor_tags d) \<and>
         (d_GetOk d ''monitor_tags'' = None \<longrightarrow> MonitorTags dt = Some []) \<and>
         (d_GetOk d ''message'' = None \<longrightarrow> Message dt = None) \<and>
         (\<forall>s. d_GetOk d ''message'' = Some (VString s) \<longrightarrow> Message dt = Some (TrimSpace s)) \<and>
         (d_GetOk d ''monitor_id'' = None \<longrightarrow> MonitorId dt = Unset) \<and>
         (\<forall>n. d_GetOk d ''monitor_id'' = Some (VInt n) \<longrightarrow> MonitorId dt = Val n) \<and>
         (d_GetOk d ''timezone'' = None \<longrightarrow> Timezone dt = None) \<and>
         (\<forall>s. d_GetOk d ''timezone'' = Some (VString s) \<longrightarrow> Timezone dt = Some s)"
proof -
  from buildDowntimeStruct_fields [OF assms] obtain currentStart currentEnd where
    f: "buildDowntimeFields P d currentStart currentEnd updating = Return dt" by blast
  from buildDowntimeFields_Return [of P d currentStart currentEnd updating] f
  have m: "Message dt = (if attr_message d = [] then None
                         else Some (TrimSpace (attr_message d)))"
    and i: "MonitorId dt = (if attr_monitor_id d = 0 then Unset else Val (attr_monitor_id d))"
    and t: "MonitorTags dt = Some (attr_monitor_tags d)"
    and z: "Timezone dt = (if attr_timezone d = [] then None else Some (attr_timezone d))"
    by auto
  have g: "d_GetOk d ''monitor_tags'' = None \<longrightarrow> attr_monitor_tags d = []"
    by (simp add: d_GetOk_def d_Get_keys split: if_splits)
  from m i t z g show ?thesis
    by (auto simp: d_GetOk_keys split: if_splits)
qed

theorem request_optional_fields_witness:
  "buildDowntimeStruct exampleParse
     (exampleData\<lparr>attr_message := '' hi '', attr_monitor_id := 7\<rparr>) exampleClient False =
     Return (Inr (zeroDowntime\<lparr>Message := Some ''hi'', MonitorId := Val 7,
                    Scope := Some [''host:web-1''], MonitorTags := Some [],
                    Timezone := Some ''UTC''\<rparr>)) \<and>
   d_GetOk (exampleData\<lparr>attr_message := '' hi '', attr_monitor_id := 7\<rparr>) ''monitor_tags'' =
     None \<and>
   MonitorTags (zeroDowntime\<lparr>Message := Some ''hi'', MonitorId := Val 7,
                  Scope := Some [''host:web-1''], MonitorTags := Some [],
                  Timezone := Some ''UTC''\<rparr>) = Some []"
proof -
  have g: "d_GetOk (exampleData\<lparr>attr_message := '' hi '', attr_monitor_id := 7\<rparr>)
             ''monitor_tags'' = None"
    by (simp add: d_GetOk_def d_Get_keys exampleData_def)
  from request_optional_fields [OF example_create_request_set] g example_create_request_set
  show ?thesis by blast
qed

text \<open>
  The claim as stated fails for the example configuration, where \<open>monitor_tags\<close> is not
  set: the request built on create carries \<open>monitor_tags\<close>, set to the empty list.
\<close>

theorem request_optional_fields_counterexample:
  "d_GetOk exampleData ''monitor_tags'' = None \<and>
   buildDowntimeStruct exampleParse exampleData exampleClient False =
     Return (Inr (zeroDowntime\<lparr>Scope := Some [''host:web-1''], MonitorTags := Some [],
                    Timezone := Some ''UTC''\<rparr>)) \<and>
   MonitorTags (zeroDowntime\<lparr>Scope := Some [''host:web-1''], MonitorTags := Some [],
                  Timezone := Some ''UTC''\<rparr>) \<noteq> None"
proof -
  have "d_GetOk exampleData ''monitor_tags'' = None"
    by (simp add: d_GetOk_def d_Get_keys exampleData_def)
  then show ?thesis by (simp add: example_create_request)
qed

subsection \<open>Projection followed by a rebuild\<close>

lemma example_projection:
  "updateDowntimeState exampleData exampleRemote =
     (exampleData\<lparr>attr_start := 1700000000, attr_message := ''  deploy  '',
        rd_setCalls :=
          [(''active'', VBool False), (''disabled'', VBool False), (''end'', VInt 0),
           (''message'', VString ''  deploy  ''), (''timezone'', VString ''UTC''),
           (''scope'', VList [''host:web-1'']), (''start'', VInt 1700000000)]\<rparr>, None)"
  by (simp add: updateDowntimeState_def try_Set_def d_Set_def write_field_def exampleData_def
        exampleRemote_def zeroDowntime_def GetActive_def GetDisabled_def GetEnd_def
        GetMessage_def GetTimezone_def GetScope_def GetMonitorTags_def GetStart_def)

lemma example_rebuild:
  "buildDowntimeStruct exampleParse (fst (updateDowntimeState exampleData exampleRemote))
     exampleClient True =
     Return (Inr (zeroDowntime\<lparr>Message := Some ''deploy'', Scope := Some [''host:web-1''],
                    MonitorTags := Some [], Timezone := Some ''UTC''\<rparr>))"
  unfolding example_projection fst_conv
  by (simp add: buildDowntimeStruct_def buildDowntimeFields_def
        resolver_start resolver_end whenOk_int_def whenOk_string_def d_GetOk_keys d_Get_keys
        exampleData_def exampleClient_def exampleRemote_def d_Id_def ParseInt_def digit_def
        downtimeBoundaryNeedsApply_def d_HasChange_def zeroDowntime_def GetStart_def
        GetEnd_def TrimSpace_def isSpace_def)

text \<open>
  C8, as amended. Let state projection of a remote downtime succeed, and let the rebuild in
  update mode find a parseable identifier and fetch the current downtime without error.
  Then the rebuild returns a request whose message is the remote message trimmed (so the
  two are equal after trimming), whose
  scope is the remote scope in the same order, and whose \<open>monitor_tags\<close> are the remote tags
  as a set unless the remote value is exactly \<open>["*"]\<close>; in that case the request carries the
  \<open>monitor_tags\<close> the configuration held before the projection.
\<close>

theorem projection_rebuild_roundtrip:
  assumes "updateDowntimeState d remote = (d', None)"
    and "ParseInt (d_Id d') = Some ident"
    and "GetDowntime client ident = (currdt, httpresp, None)"
  shows "\<exists>req. buildDowntimeStruct P d' client True = Return (Inr req) \<and>
           GetMessage req = TrimSpace (GetMessage remote) \<and>
           TrimSpace (GetMessage req) = TrimSpace (GetMessage remote) \<and>
           GetScope req = GetScope remote \<and>
           (GetMonitorTags remote \<noteq> [''*''] \<longrightarrow>
              set (GetMonitorTags req) = set (GetMonitorTags remote)) \<and>
           (GetMonitorTags remote = [''*''] \<longrightarrow>
              GetMonitorTags req = attr_monitor_tags d)"
proof -
  from buildDowntimeFields_Return [of P d' "GetStart currdt" "GetEnd currdt" True]
  obtain req where
    f: "buildDowntimeFields P d' (GetStart currdt) (GetEnd currdt) True = Return req" and
    m: "Message req = (if attr_message d' = [] then None
                       else Some (TrimSpace (attr_message d')))" and
    s: "Scope req = Some (attr_scope d')" and
    t: "MonitorTags req = Some (attr_monitor_tags d')"
    by blast
  from buildDowntimeStruct_update [OF assms(2) assms(3), of P] f
  have b: "buildDowntimeStruct P d' client True = Return (Inr req)" by simp
  from m projection_success(1) [OF assms(1)]
  have g: "GetMessage req = TrimSpace (GetMessage remote)"
    by (simp add: GetMessage_def TrimSpace_Nil split: if_splits)
  then have "TrimSpace (GetMessage req) = TrimSpace (GetMessage remote)"
    by (simp add: TrimSpace_idem)
  moreover note g
  moreover from s projection_success(2) [OF assms(1)]
  have "GetScope req = GetScope remote"
    by (simp add: GetScope_def)
  moreover from t projection_success(3) [OF assms(1)]
  have "GetMonitorTags remote \<noteq> [''*''] \<longrightarrow>
          set (GetMonitorTags req) = set (GetMonitorTags remote)"
    by (simp add: GetMonitorTags_def)
  moreover from t projection_success(3) [OF assms(1)]
  have "GetMonitorTags remote = [''*''] \<longrightarrow> GetMonitorTags req = attr_monitor_tags d"
    by (simp add: GetMonitorTags_def)
  ultimately show ?thesis using b by blast
qed

theorem projection_rebuild_roundtrip_witness:
  "\<exists>req. buildDowntimeStruct exampleParse
            (fst (updateDowntimeState exampleData
                    (exampleRemote\<lparr>MonitorTags := Some [''b'', ''a'']\<rparr>)))
            exampleClient True = Return (Inr req) \<and>
         GetMessage req = ''deploy'' \<and>
         GetScope req = [''host:web-1''] \<and>
         set (GetMonitorTags req) = {''a'', ''b''}"
proof -
  let ?remote = "exampleRemote\<lparr>MonitorTags := Some [''b'', ''a'']\<rparr>"
  let ?d' = "fst (updateDowntimeState exampleData ?remote)"
  have e: "rd_setError exampleData = (\<lambda>key. None)" by (simp add: exampleData_def)
  have p: "updateDowntimeState exampleData ?remote = (?d', None)"
    using projection_succeeds [OF e, of ?remote] by (simp add: prod_eq_iff)
  have "d_Id ?d' = ''123''"
    using projection_success(4) [OF p] by (simp add: d_Id_def exampleData_def)
  then have i: "ParseInt (d_Id ?d') = Some 123"
    by (simp add: ParseInt_def digit_def)
  have g: "GetDowntime exampleClient 123 = (exampleRemote, Some exampleResponse, None)"
    by (simp add: exampleClient_def)
  have v: "TrimSpace (GetMessage ?remote) = ''deploy''" "GetScope ?remote = [''host:web-1'']"
    "GetMonitorTags ?remote = [''b'', ''a'']"
    by (simp_all add: GetMessage_def GetScope_def GetMonitorTags_def exampleRemote_def
          zeroDowntime_def TrimSpace_def isSpace_def)
  from projection_rebuild_roundtrip [OF p i g, of exampleParse] v show ?thesis by auto
qed

text \<open>
  The claim as stated fails for the remote downtime whose \<open>monitor_tags\<close> is \<open>["*"]\<close>: the
  projection into the example configuration succeeds, and the request rebuilt from it in
  update mode carries the empty list of tags.
\<close>

theorem projection_rebuild_roundtrip_counterexample:
  "snd (updateDowntimeState exampleData exampleRemote) = None \<and>
   buildDowntimeStruct exampleParse (fst (updateDowntimeState exampleData exampleRemote))
     exampleClient True =
     Return (Inr (zeroDowntime\<lparr>Message := Some ''deploy'', Scope := Some [''host:web-1''],
                    MonitorTags := Some [], Timezone := Some ''UTC''\<rparr>)) \<and>
   set (GetMonitorTags (zeroDowntime\<lparr>Message := Some ''deploy'',
                          Scope := Some [''host:web-1''], MonitorTags := Some [],
                          Timezone := Some ''UTC''\<rparr>)) \<noteq>
     set (GetMonitorTags exampleRemote)"
proof -
  have "snd (updateDowntimeState exampleData exampleRemote) = None"
    by (simp add: example_projection)
  moreover have "set (GetMonitorTags (zeroDowntime\<lparr>Message := Some ''deploy'',
                          Scope := Some [''host:web-1''], MonitorTags := Some [],
                          Timezone := Some ''UTC''\<rparr>)) \<noteq>
     set (GetMonitorTags exampleRemote)"
    by (simp add: GetMonitorTags_def exampleRemote_def zeroDowntime_def)
  ultimately show ?thesis using example_rebuild by simp
qed


subsection \<open>Read\<close>

lemma read_not_found:
  assumes "ParseInt (d_Id d) = Some ident"
    and "GetDowntime client ident = (dt, Some r, Some err)"
    and "StatusCode r = 404"
  shows "resourceDatadogDowntimeRead client d = Return (d_SetId d [], None)"
  using assms by (simp add: resourceDatadogDowntimeRead_def)

lemma read_canceled:
  assumes "ParseInt (d_Id d) = Some ident"
    and "GetDowntime client ident = (dt, httpresp, None)"
    and "Canceled dt = Val canceled"
  shows "resourceDatadogDowntimeRead client d = Return (d_SetId d [], None)"
  using assms by (simp add: resourceDatadogDowntimeRead_def)

lemma read_error_with_response:
  assumes "ParseInt (d_Id d) = Some ident"
    and "GetDowntime client ident = (dt, Some r, Some err)"
    and "StatusCode r \<noteq> 404"
  shows "resourceDatadogDowntimeRead client d =
           Return (d, Some (TranslateClientError err (Host r) ''error getting downtime''))"
  using assms by (simp add: resourceDatadogDowntimeRead_def)

lemma read_error_without_response:
  assumes "ParseInt (d_Id d) = Some ident"
    and "GetDowntime client ident = (dt, None, Some err)"
  shows "resourceDatadogDowntimeRead client d = Panic NilPointerDereference"
  using assms by (simp add: resourceDatadogDowntimeRead_def)

lemma example_id: "ParseInt (d_Id exampleData) = Some 123"
  by (simp add: d_Id_def exampleData_def ParseInt_def digit_def)

text \<open>
  C3. A read whose fetch fails before any HTTP response exists (the client returns an
  error and a nil response) does not return an error: line 342 reads
  \<open>httpresp.Request.URL.Host\<close> through the nil response and panics. (With a 404 response,
  and with a canceled downtime, read clears the identifier and returns nil:
  \<open>read_not_found\<close>, \<open>read_canceled\<close>; with any other response it returns the translated
  error: \<open>read_error_with_response\<close>.)
\<close>

theorem read_offline_panics:
  "resourceDatadogDowntimeRead offlineClient exampleData = Panic NilPointerDereference"
proof -
  have "GetDowntime offlineClient 123 =
          (zeroDowntime, None, Some (ClientError ''connection refused''))"
    by (simp add: offlineClient_def)
  from read_error_without_response [OF example_id this] show ?thesis .
qed

subsection \<open>The pre-fetch of the request builder\<close>

lemma prefetch_error_with_response:
  assumes "ParseInt (d_Id d) = Some ident"
    and "GetDowntime client ident = (dt, Some r, Some err)"
  shows "buildDowntimeStruct P d client True =
           Return (Inl (TranslateClientError err (Host r) ''error getting downtime''))"
  using assms by (simp add: buildDowntimeStruct_def)

lemma prefetch_error_without_response:
  assumes "ParseInt (d_Id d) = Some ident"
    and "GetDowntime client ident = (dt, None, Some err)"
  shows "buildDowntimeStruct P d client True = Panic NilPointerDereference"
  using assms by (simp add: buildDowntimeStruct_def)

text \<open>
  C10. When the client returns an error and no HTTP response, the pre-fetch of the request
  builder in update mode does not return an error value: line 239 reads
  \<open>httpresp.Request.URL.Host\<close> through the nil response and panics, and the update that
  called the builder panics with it.
\<close>

theorem prefetch_offline_panics:
  "buildDowntimeStruct exampleParse exampleData offlineClient True =
     Panic NilPointerDereference \<and>
   resourceDatadogDowntimeUpdate exampleParse offlineClient exampleData =
     Panic NilPointerDereference"
proof -
  have "GetDowntime offlineClient 123 =
          (zeroDowntime, None, Some (ClientError ''connection refused''))"
    by (simp add: offlineClient_def)
  from prefetch_error_without_response [OF example_id this, of exampleParse]
  show ?thesis by (simp add: resourceDatadogDowntimeUpdate_def bind_def)
qed

subsection \<open>Update\<close>

lemma update_success:
  assumes "resourceDatadogDowntimeUpdate P client d = Return (d', None)"
  shows "\<exists>ident req updatedDowntime httpresp.
           ParseInt (d_Id d) = Some ident \<and>
           Id_dt req = Some ident \<and>
           UpdateDowntime client ident req = (updatedDowntime, httpresp, None) \<and>
           updateDowntimeState (d_SetId d (FormatInt ident)) updatedDowntime = (d', None) \<and>
           d_Id d' = FormatInt ident"
proof -
  from assms obtain dt0 where b: "buildDowntimeStruct P d client True = Return (Inr dt0)"
    by (auto simp: resourceDatadogDowntimeUpdate_def bind_def
             split: outcome.splits sum.splits)
  from assms b obtain ident where i: "ParseInt (d_Id d) = Some ident"
    by (cases "ParseInt (d_Id d)") (simp_all add: resourceDatadogDowntimeUpdate_def)
  let ?req = "dt0\<lparr>Id_dt := Some ident\<rparr>"
  obtain updatedDowntime httpresp res where
    u: "UpdateDowntime client ident ?req = (updatedDowntime, httpresp, res)"
    by (cases "UpdateDowntime client ident ?req")
  from assms b i u have r: "res = None"
    by (cases res) (simp_all add: resourceDatadogDowntimeUpdate_def split: option.splits)
  from assms b i u r
  have s: "updateDowntimeState (d_SetId d (FormatInt ident)) updatedDowntime = (d', None)"
    by (simp add: resourceDatadogDowntimeUpdate_def GetId_def)
  from projection_success(4) [OF s] have f: "d_Id d' = FormatInt ident"
    by (simp add: d_Id_def d_SetId_def)
  have q: "Id_dt ?req = Some ident" by simp
  from u r have "UpdateDowntime client ident ?req = (updatedDowntime, httpresp, None)"
    by simp
  with i q s f show ?thesis by blast
qed

lemma FormatInt_123: "FormatInt 123 = ''123''"
  by code_simp

text \<open>
  C6. The update of the example configuration, whose identifier is 123, succeeds against
  a client whose update operation returns the downtime 456; the request it sends carries
  the identifier 123, and afterwards the local identifier is still 123, not the returned
  456: line 445 reads the identifier of the request \<open>dt\<close>, not of \<open>updatedDowntime\<close>.
\<close>

theorem update_keeps_request_id:
  "GetId (fst (UpdateDowntime exampleClient 123
                 (zeroDowntime\<lparr>Id_dt := Some 123, Scope := Some [''host:web-1''],
                    MonitorTags := Some [], Timezone := Some ''UTC''\<rparr>))) = 456 \<and>
   (case resourceDatadogDowntimeUpdate exampleParse exampleClient exampleData of
      Return (d', res) \<Rightarrow> res = None \<and> d_Id d' = ''123''
    | Panic p \<Rightarrow> False)"
proof -
  let ?req = "zeroDowntime\<lparr>Scope := Some [''host:web-1''], MonitorTags := Some [],
                Timezone := Some ''UTC''\<rparr>"
  let ?d1 = "d_SetId exampleData ''123''"
  let ?remote = "exampleRemote\<lparr>Id_dt := Some 456\<rparr>"
  have b: "buildDowntimeStruct exampleParse exampleData exampleClient True = Return (Inr ?req)"
    by (simp add: buildDowntimeStruct_def d_Id_def ParseInt_def digit_def
          buildDowntimeFields_def resolver_start
          resolver_end whenOk_int_def whenOk_string_def d_GetOk_keys d_Get_keys
          exampleData_def exampleClient_def downtimeBoundaryNeedsApply_def zeroDowntime_def)
  have u: "resourceDatadogDowntimeUpdate exampleParse exampleClient exampleData =
             Return (updateDowntimeState ?d1 ?remote)"
    unfolding resourceDatadogDowntimeUpdate_def b
    by (simp add: example_id exampleClient_def GetId_def FormatInt_123)
  have e: "rd_setError ?d1 = (\<lambda>key. None)"
    by (simp add: d_SetId_def exampleData_def)
  have p: "updateDowntimeState ?d1 ?remote = (fst (updateDowntimeState ?d1 ?remote), None)"
    using projection_succeeds [OF e, of ?remote] by (simp add: prod_eq_iff)
  from projection_success(4) [OF p]
  have i: "d_Id (fst (updateDowntimeState ?d1 ?remote)) = ''123''"
    by (simp add: d_Id_def d_SetId_def)
  have g: "GetId (fst (UpdateDowntime exampleClient 123
                 (zeroDowntime\<lparr>Id_dt := Some 123, Scope := Some [''host:web-1''],
                    MonitorTags := Some [], Timezone := Some ''UTC''\<rparr>))) = 456"
    by (simp add: exampleClient_def GetId_def)
  have n: "snd (updateDowntimeState ?d1 ?remote) = None"
    by (rule projection_succeeds [OF e])
  from u n i g show ?thesis
    by (simp add: case_prod_beta)
qed

subsection \<open>The schema's mutual exclusions\<close>

lemma validateConfig_attribute_errors:
  assumes "entry \<in> set schemaMap" and "err \<in> set (validateAttribute c entry)"
  shows "err \<in> set (validateConfig schemaMap c)"
proof -
  from assms(2) have "validateAttribute c entry \<noteq> []" by auto
  then have "(case validateAttribute c entry of [] \<Rightarrow> validateBlocks c entry | errs \<Rightarrow> errs) =
               validateAttribute c entry"
    by (cases "validateAttribute c entry") simp_all
  with assms show ?thesis
    by (auto simp: validateConfig_def intro!: bexI [of _ entry])
qed

lemma top_level_conflicts_rejected:
  "c_Get c ''start'' \<noteq> None \<Longrightarrow> c_Get c ''start_date'' \<noteq> None \<Longrightarrow>
     ConflictsWithError ''start_date'' ''start'' \<in> set (validateConfig downtimeSchema c)"
  "c_Get c ''end'' \<noteq> None \<Longrightarrow> c_Get c ''end_date'' \<noteq> None \<Longrightarrow>
     ConflictsWithError ''end_date'' ''end'' \<in> set (validateConfig downtimeSchema c)"
  "c_Get c ''monitor_id'' \<noteq> None \<Longrightarrow> c_Get c ''monitor_tags'' \<noteq> None \<Longrightarrow>
     ConflictsWithError ''monitor_id'' ''monitor_tags'' \<in> set (validateConfig downtimeSchema c)"
proof -
  show "c_Get c ''start'' \<noteq> None \<Longrightarrow> c_Get c ''start_date'' \<noteq> None \<Longrightarrow>
     ConflictsWithError ''start_date'' ''start'' \<in> set (validateConfig downtimeSchema c)"
    by (rule validateConfig_attribute_errors
          [of "(''start_date'', Schema TypeString True False False [''start''] [])"])
       (simp_all add: downtimeSchema_def validateAttribute_def
          validateConflictingAttributes_def)
  show "c_Get c ''end'' \<noteq> None \<Longrightarrow> c_Get c ''end_date'' \<noteq> None \<Longrightarrow>
     ConflictsWithError ''end_date'' ''end'' \<in> set (validateConfig downtimeSchema c)"
    by (rule validateConfig_attribute_errors
          [of "(''end_date'', Schema TypeString True False False [''end''] [])"])
       (simp_all add: downtimeSchema_def validateAttribute_def
          validateConflictingAttributes_def)
  show "c_Get c ''monitor_id'' \<noteq> None \<Longrightarrow> c_Get c ''monitor_tags'' \<noteq> None \<Longrightarrow>
     ConflictsWithError ''monitor_id'' ''monitor_tags'' \<in> set (validateConfig downtimeSchema c)"
    by (rule validateConfig_attribute_errors
          [of "(''monitor_id'', Schema TypeInt True False False [''monitor_tags''] [])"])
       (simp_all add: downtimeSchema_def validateAttribute_def
          validateConflictingAttributes_def)
qed

lemma conflicting_paths:
  "c_Get conflictingConfig ''recurrence.0.until_date'' = Some (RawInt 1700000000)"
  "c_Get conflictingConfig ''recurrence.0.until_occurrences'' = Some (RawInt 3)"
  "c_Get conflictingConfig ''recurrence.until_date'' = None"
  "c_Get conflictingConfig ''recurrence.until_occurrences'' = None"
  by (simp_all add: c_Get_def conflictingConfig_def digit_def)

lemma indexed_path_conflicts:
  "validateConflictingAttributes ''recurrence.0.until_date''
     (Schema TypeInt True False False [''recurrence.0.until_occurrences''] [])
     conflictingConfig =
   Some (ConflictsWithError ''recurrence.0.until_date'' ''recurrence.0.until_occurrences'')"
  by (simp add: validateConflictingAttributes_def conflicting_paths)

lemma conflicting_config_accepted:
  "validateConfig downtimeSchema conflictingConfig = []"
  by code_simp

lemma conflicting_request:
  "buildDowntimeStruct exampleParse conflictingData exampleClient False =
     Return (Inr (zeroDowntime\<lparr>
       Recurrence := Val \<lparr>Period = Some 1, Type = Some ''days'', UntilDate = Some 1700000000,
                          UntilOccurrences = Some 3, WeekDays = None, Rrule = None\<rparr>,
       Scope := Some [''host:web-1''], MonitorTags := Some [], Timezone := Some ''UTC''\<rparr>))"
  by (simp add: buildDowntimeStruct_def buildDowntimeFields_def resolver_start resolver_end
        whenOk_int_def whenOk_string_def d_GetOk_keys d_Get_keys buildRecurrence_Return
        block0_def conflictingData_def exampleData_def downtimeBoundaryNeedsApply_def
        zeroDowntime_def to_int32_def)

text \<open>
  C9. The configuration whose recurrence block sets both \<open>until_date\<close> and
  \<open>until_occurrences\<close> passes the schema's constraints: the block's attributes are
  configured under \<open>recurrence.0.until_date\<close> and \<open>recurrence.0.until_occurrences\<close>, and the
  paths \<open>recurrence.until_date\<close> and \<open>recurrence.until_occurrences\<close> that \<open>ConflictsWith\<close>
  lists (lines 115 and 121) name nothing in it. The request builder is reached and copies
  both into the request. (The pairs of top-level attributes are rejected:
  \<open>top_level_conflicts_rejected\<close>; a path with the index would be too:
  \<open>indexed_path_conflicts\<close>.)
\<close>

theorem nested_conflict_not_rejected:
  "c_Get conflictingConfig ''recurrence.0.until_date'' \<noteq> None \<and>
   c_Get conflictingConfig ''recurrence.0.until_occurrences'' \<noteq> None \<and>
   validateConfig downtimeSchema conflictingConfig = [] \<and>
   buildDowntimeStruct exampleParse conflictingData exampleClient False =
     Return (Inr (zeroDowntime\<lparr>
       Recurrence := Val \<lparr>Period = Some 1, Type = Some ''days'', UntilDate = Some 1700000000,
                          UntilOccurrences = Some 3, WeekDays = None, Rrule = None\<rparr>,
       Scope := Some [''host:web-1''], MonitorTags := Some [], Timezone := Some ''UTC''\<rparr>))"
  by (simp add: conflicting_paths conflicting_config_accepted conflicting_request)


end
